theory Spec2Isabelle
  imports Complex_Main
begin

section \<open>The RAMSES field definitions of yt (yt/frontends/ramses/fields.py)\<close>

text \<open>
  A shallow embedding of \<^verbatim>\<open>RAMSESFieldInfo\<close>: the closures it registers become the
  constructors of a datatype of field functions together with an evaluator, the registry
  and the log become an explicit state, and every \<^verbatim>\<open>raise\<close> becomes an \<open>Inl\<close>.

  Conventions of the model.
  \<^item> An array is the list of its elements in flattened order (\<^verbatim>\<open>ravel\<close> and
    \<^verbatim>\<open>reshape(shape)\<close> are then the identity). Element-wise operations follow numpy's
    broadcasting rule for one-dimensional arrays.
  \<^item> Floating-point numbers are idealised as real numbers: rounding, infinities and NaN
    are outside the model, and a division by zero has HOL's value.
  \<^item> The values a data context returns are magnitudes in one coherent (CGS) system, so
    the unit conversions of the unit library between such units are the identity on
    magnitudes. The units given to \<^verbatim>\<open>add_field\<close> are kept symbolically.
\<close>

subsection \<open>Errors\<close>

datatype error =
    IndexError
  | ValueError
  | ZeroDivisionError
  | KeyError string
  | TypeError
  | YTFieldNotFound "string \<times> string"
  | CorruptTableError

fun bindE :: "error + 'a \<Rightarrow> ('a \<Rightarrow> error + 'b) \<Rightarrow> error + 'b" where
  "bindE (Inl e) f = Inl e"
| "bindE (Inr x) f = f x"

subsection \<open>Arrays\<close>

type_synonym ndarray = "real list"

text \<open>
  \<^verbatim>\<open>a op b\<close> on two one-dimensional arrays: equal lengths combine element by element, an
  array of length one is broadcast, anything else raises ValueError.
\<close>

definition np_binop :: "(real \<Rightarrow> real \<Rightarrow> real) \<Rightarrow> ndarray \<Rightarrow> ndarray \<Rightarrow> error + ndarray" where
  "np_binop f xs ys =
     (if length xs = length ys then Inr (map2 f xs ys)
      else if length ys = 1 then Inr (map (\<lambda>x. f x (hd ys)) xs)
      else if length xs = 1 then Inr (map (\<lambda>y. f (hd xs) y) ys)
      else Inl ValueError)"

text \<open>
  \<^verbatim>\<open>out += b\<close>: the result keeps the shape of \<^verbatim>\<open>out\<close>, so only \<^verbatim>\<open>b\<close> can be
  broadcast.
\<close>

definition np_iadd :: "ndarray \<Rightarrow> ndarray \<Rightarrow> error + ndarray" where
  "np_iadd out ys =
     (if length out = length ys then Inr (map2 (+) out ys)
      else if length ys = 1 then Inr (map (\<lambda>x. x + hd ys) out)
      else Inl ValueError)"

definition zeros_like :: "ndarray \<Rightarrow> ndarray" where
  "zeros_like xs = map (\<lambda>_. 0) xs"

subsection \<open>Strings\<close>

text \<open>\<^verbatim>\<open>s.split(c)\<close> for a separator of one character.\<close>

fun split_on :: "char \<Rightarrow> string \<Rightarrow> string list" where
  "split_on c [] = [[]]"
| "split_on c (x # xs) =
     (if x = c then [] # split_on c xs
      else (case split_on c xs of
              [] \<Rightarrow> [[x]]
            | w # ws \<Rightarrow> (x # w) # ws))"

definition py_index :: "'a list \<Rightarrow> nat \<Rightarrow> error + 'a" where
  "py_index xs i = (if i < length xs then Inr (xs ! i) else Inl IndexError)"

fun string_of_nat :: "nat \<Rightarrow> string" where
  "string_of_nat n =
     (if n < 10 then [char_of (48 + n)]
      else string_of_nat (n div 10) @ [char_of (48 + n mod 10)])"

declare string_of_nat.simps [simp del]

definition zfill :: "nat \<Rightarrow> string \<Rightarrow> string" where
  "zfill w s = replicate (w - length s) (CHR ''0'') @ s"

text \<open>The format specification \<^verbatim>\<open>{num:05}\<close>: sign first, then zeros up to width five.\<close>

definition format_05 :: "int \<Rightarrow> string" where
  "format_05 num =
     (if num < 0 then CHR ''-'' # zfill 4 (string_of_nat (nat (- num)))
      else zfill 5 (string_of_nat (nat num)))"

text \<open>\<^verbatim>\<open>os.path.join(a, b)\<close> with POSIX paths.\<close>

definition path_join :: "string \<Rightarrow> string \<Rightarrow> string" where
  "path_join a b =
     (if b \<noteq> [] \<and> hd b = CHR ''/'' then b
      else if a = [] \<or> last a = CHR ''/'' then a @ b
      else a @ ''/'' @ b)"

subsection \<open>The dataset, the data context and the collaborators\<close>

type_synonym field_key = "string \<times> string"

datatype pval = PInt int | PReal real | PArr "real list"

record dataset =
  basename :: string
  directory :: string
  cosmological_simulation :: bool
  use_conformal_time :: bool
  self_shielding :: bool
  max_level :: int
  axis_order :: "string list"
  current_time :: real
  hubble_constant :: real
  parameters :: "(string \<times> pval) list"

text \<open>
  A data context: \<open>field_values\<close> is what \<^verbatim>\<open>data[key]\<close> returns (\<open>None\<close> when the
  lookup raises), \<open>is_field_detector\<close> is \<^verbatim>\<open>isinstance(data, FieldDetector)\<close>.
\<close>

record data_ctx =
  is_field_detector :: bool
  field_values :: "field_key \<Rightarrow> ndarray option"
  ds :: dataset

definition getitem :: "data_ctx \<Rightarrow> field_key \<Rightarrow> error + ndarray" where
  "getitem data k = (case field_values data k of None \<Rightarrow> Inl (YTFieldNotFound k) | Some v \<Rightarrow> Inr v)"

text \<open>A record of a Fortran unformatted file, as \<^verbatim>\<open>read_vector\<close> decodes it.\<close>

datatype fvec = IVec "int list" | DVec "real list"

text \<open>
  What the module imports from outside this file: Python's \<^verbatim>\<open>int\<close>, the file system,
  the physical constants, the cosmological-time collaborators, the unit conversions of
  the stellar-age formula, the radiative-transfer file handler, the field list of the
  index and the parent class's particle-field setup.
\<close>

record externals =
  py_int :: "string \<Rightarrow> int option"
  files :: "string \<Rightarrow> fvec list option"
  mh :: real
  mp :: real
  mass_hydrogen_cgs :: real
  boltzmann_constant_cgs :: real
  speed_of_light :: real
  convert_ramses_conformal_time_to_physical_time :: "dataset \<Rightarrow> ndarray \<Rightarrow> ndarray"
  t_frw :: "dataset \<Rightarrow> real \<Rightarrow> real"
  km_s_Mpc_to_per_Gyr :: "real \<Rightarrow> real"
  time_to_Gyr :: "real \<Rightarrow> real"
  rt_any_exist :: "dataset \<Rightarrow> bool"
  get_rt_parameters :: "dataset \<Rightarrow> (string \<times> pval) list"
  field_list :: "field_key list"

subsection \<open>The lookup-table interpolator\<close>

text \<open>
  Modelled from the spec: \<^verbatim>\<open>BilinearFieldInterpolator\<close>
  (yt/utilities/linear_interpolators.py is not part of the sources at hand). Section 4.2 of
  the specification: for each query point the bracketing cell is located along each axis
  of the monotone coordinate sequence, the four corner weights come from the fractional
  offsets, and the weighted sum is returned; a coordinate outside the sampled range is
  clamped to the nearest edge sample (the truncation policy) rather than failing; an axis
  with a single sample returns that sample without dividing by a zero spacing.
\<close>

record interpolator =
  table :: "real list list"
  x_bins :: "real list"
  y_bins :: "real list"
  field_names :: "string list"
  truncate_flag :: bool

definition BilinearFieldInterpolator ::
    "real list list \<Rightarrow> real list \<times> real list \<Rightarrow> string list \<Rightarrow> bool \<Rightarrow> interpolator" where
  "BilinearFieldInterpolator tab boundaries names trunc =
     \<lparr>table = tab, x_bins = fst boundaries, y_bins = snd boundaries,
      field_names = names, truncate_flag = trunc\<rparr>"

definition cell_index :: "real list \<Rightarrow> real \<Rightarrow> nat" where
  "cell_index bins x = min (length bins - 2) (length (takeWhile (\<lambda>b. b \<le> x) (tl bins)))"

text \<open>The lower sample, the upper sample and the fractional offset of a query coordinate.\<close>

definition axis_locate :: "bool \<Rightarrow> real list \<Rightarrow> real \<Rightarrow> error + (nat \<times> nat \<times> real)" where
  "axis_locate trunc bins x =
     (if bins = [] then Inl IndexError
      else if length bins = 1 then Inr (0, 0, 0)
      else if \<not> trunc \<and> (x < hd bins \<or> last bins < x) then Inl ValueError
      else
        (let xc = max (hd bins) (min (last bins) x);
             i = cell_index bins xc
         in Inr (i, i + 1, (xc - bins ! i) / (bins ! (i + 1) - bins ! i))))"

definition table_at :: "real list list \<Rightarrow> nat \<Rightarrow> nat \<Rightarrow> error + real" where
  "table_at tab i j = bindE (py_index tab i) (\<lambda>row. py_index row j)"

definition interp_point :: "interpolator \<Rightarrow> real \<times> real \<Rightarrow> error + real" where
  "interp_point it q =
     bindE (axis_locate (truncate_flag it) (x_bins it) (fst q)) (\<lambda>(i0, i1, t).
     bindE (axis_locate (truncate_flag it) (y_bins it) (snd q)) (\<lambda>(j0, j1, u).
     bindE (table_at (table it) i0 j0) (\<lambda>v00.
     bindE (table_at (table it) i1 j0) (\<lambda>v10.
     bindE (table_at (table it) i0 j1) (\<lambda>v01.
     bindE (table_at (table it) i1 j1) (\<lambda>v11.
       Inr (v00 * (1 - t) * (1 - u) + v10 * t * (1 - u)
            + v01 * (1 - t) * u + v11 * t * u)))))))"

fun mapE :: "('a \<Rightarrow> error + 'b) \<Rightarrow> 'a list \<Rightarrow> error + 'b list" where
  "mapE f [] = Inr []"
| "mapE f (x # xs) =
     (case f x of
        Inl e \<Rightarrow> Inl e
      | Inr y \<Rightarrow> (case mapE f xs of Inl e \<Rightarrow> Inl e | Inr ys \<Rightarrow> Inr (y # ys)))"

definition dict_get :: "(string \<times> 'a) list \<Rightarrow> string \<Rightarrow> error + 'a" where
  "dict_get d k = (case map_of d k of None \<Rightarrow> Inl (KeyError k) | Some v \<Rightarrow> Inr v)"

text \<open>\<^verbatim>\<open>interp_object(d)\<close>: the query coordinates are read from the dictionary by name.\<close>

definition interp_call :: "interpolator \<Rightarrow> (string \<times> ndarray) list \<Rightarrow> error + ndarray" where
  "interp_call it d =
     bindE (py_index (field_names it) 0) (\<lambda>xn.
     bindE (py_index (field_names it) 1) (\<lambda>yn.
     bindE (dict_get d xn) (\<lambda>xs.
     bindE (dict_get d yn) (\<lambda>ys.
       if length xs = length ys then mapE (interp_point it) (zip xs ys)
       else Inl ValueError))))"

subsection \<open>The field functions\<close>

text \<open>
  Every closure handed to \<^verbatim>\<open>add_field\<close> is one constructor, carrying what the closure
  captures. The two definitions of \<^verbatim>\<open>_temperature\<close> are \<open>Temperature_with_mu\<close> (cooling
  tables found) and \<open>Temperature_fallback\<close>; \<open>Cool_func\<close> is \<^verbatim>\<open>_func\<close> of
  \<^verbatim>\<open>_create_field(name, interp_object, unit)\<close>. \<open>Alias_of\<close> stands for the entries the
  parent class creates from \<^verbatim>\<open>known_other_fields\<close>: an alias returns the on-disk field
  it names.
\<close>

datatype field_fn =
    Alias_of field_key
  | Temperature_over_mu
  | Temperature_with_mu
  | Temperature_fallback
  | Star_age_from_conformal_cosmo string
  | Star_age_from_physical_cosmo string
  | Star_age string
  | Potential_energy
  | Mag_field string
  | DivB
  | Temp_IR
  | Species_density string
  | Species_mass string
  | Photon_density nat "real list"
  | Photon_flux string nat real
  | Cool_func field_key interpolator "string option"
  | Number_density
  | All_cool
  | All_heat
  | Net_cool

datatype py_warning = RuntimeWarning string

text \<open>The text of the warning of the fallback temperature, abridged.\<close>

definition temperature_warning :: py_warning where
  "temperature_warning =
     RuntimeWarning ''Trying to calculate temperature but the cooling tables could not be found or read.''"

definition Y_He :: real where
  "Y_He = 0.24"

subsubsection \<open>setup_particle_fields\<close>

definition star_age_from_conformal_cosmo :: "externals \<Rightarrow> string \<Rightarrow> data_ctx \<Rightarrow> error + ndarray" where
  "star_age_from_conformal_cosmo ext ptype data =
     bindE (getitem data (ptype, ''conformal_birth_time'')) (\<lambda>conformal_age.
       let birth_time = convert_ramses_conformal_time_to_physical_time ext (ds data) conformal_age
       in Inr (map (\<lambda>b. current_time (ds data) - b) birth_time))"

text \<open>The result of the physical-cosmology formula is a magnitude in Gyr.\<close>

definition star_age_from_physical_cosmo :: "externals \<Rightarrow> string \<Rightarrow> data_ctx \<Rightarrow> error + ndarray" where
  "star_age_from_physical_cosmo ext ptype data =
     (let H0 = km_s_Mpc_to_per_Gyr ext (hubble_constant (ds data) * 100)
      in bindE (getitem data (ptype, ''conformal_birth_time'')) (\<lambda>times.
           let time_tot = t_frw ext (ds data) 0 * H0;
               t_out = time_to_Gyr ext (current_time (ds data))
           in Inr (map (\<lambda>t. t_out - (time_tot + t) / H0) times)))"

definition star_age :: "string \<Rightarrow> data_ctx \<Rightarrow> error + ndarray" where
  "star_age ptype data =
     bindE (getitem data (ptype, ''particle_birth_time'')) (\<lambda>formation_time.
       Inr (map (\<lambda>f. current_time (ds data) - f) formation_time))"

subsubsection \<open>setup_fluid_fields\<close>

definition temperature_over_mu :: "externals \<Rightarrow> data_ctx \<Rightarrow> error + ndarray" where
  "temperature_over_mu ext data =
     bindE (getitem data (''gas'', ''pressure'')) (\<lambda>p.
     bindE (getitem data (''gas'', ''density'')) (\<lambda>d.
     bindE (np_binop (/) p d) (\<lambda>rv.
       Inr (map (\<lambda>x. x * (mass_hydrogen_cgs ext / boltzmann_constant_cgs ext)) rv))))"

definition temperature_with_mu :: "data_ctx \<Rightarrow> error + ndarray" where
  "temperature_with_mu data =
     bindE (getitem data (''gas'', ''temperature_over_mu'')) (\<lambda>t.
     bindE (getitem data (''gas'', ''mu'')) (\<lambda>m.
       np_binop (*) t m))"

text \<open>The fallback returns the warnings it issues together with its value.\<close>

definition temperature_fallback :: "data_ctx \<Rightarrow> py_warning list \<times> (error + ndarray)" where
  "temperature_fallback data =
     ((if \<not> is_field_detector data then [temperature_warning] else []),
      getitem data (''gas'', ''temperature_over_mu''))"

definition potential_energy :: "data_ctx \<Rightarrow> error + ndarray" where
  "potential_energy data =
     bindE (getitem data (''gas'', ''potential'')) (\<lambda>p.
     bindE (getitem data (''gas'', ''cell_mass'')) (\<lambda>m.
       np_binop (*) p m))"

subsubsection \<open>create_magnetic_fields\<close>

definition mag_field :: "string \<Rightarrow> data_ctx \<Rightarrow> error + ndarray" where
  "mag_field ax data =
     bindE (getitem data (''gas'', ''magnetic_field_'' @ ax @ ''_left'')) (\<lambda>l.
     bindE (getitem data (''gas'', ''magnetic_field_'' @ ax @ ''_right'')) (\<lambda>r.
     bindE (np_binop (+) l r) (\<lambda>s.
       Inr (map (\<lambda>v. v / 2) s))))"

text \<open>The loop of \<^verbatim>\<open>_divB\<close> over the axes, accumulating into \<^verbatim>\<open>out\<close>.\<close>

fun divB_loop :: "data_ctx \<Rightarrow> string list \<Rightarrow> ndarray \<Rightarrow> error + ndarray" where
  "divB_loop data [] out = Inr out"
| "divB_loop data (ax # axs) out =
     (case getitem data (''gas'', ''magnetic_field_'' @ ax @ ''_right'') of
        Inl e \<Rightarrow> Inl e
      | Inr r \<Rightarrow>
          (case getitem data (''gas'', ''magnetic_field_'' @ ax @ ''_left'') of
             Inl e \<Rightarrow> Inl e
           | Inr l \<Rightarrow>
               (case np_binop (-) r l of
                  Inl e \<Rightarrow> Inl e
                | Inr d \<Rightarrow>
                    (case np_iadd out d of
                       Inl e \<Rightarrow> Inl e
                     | Inr out' \<Rightarrow> divB_loop data axs out'))))"

definition divB :: "data_ctx \<Rightarrow> error + ndarray" where
  "divB data =
     bindE (getitem data (''gas'', ''magnetic_field_x_right'')) (\<lambda>z.
     bindE (divB_loop data (axis_order (ds data)) (zeros_like z)) (\<lambda>out.
     bindE (getitem data (''gas'', ''dx'')) (\<lambda>dx.
       np_binop (/) out dx)))"

subsubsection \<open>create_rt_fields\<close>

definition temp_IR :: "externals \<Rightarrow> data_ctx \<Rightarrow> error + ndarray" where
  "temp_IR ext data =
     bindE (getitem data (''gas'', ''pres_IR'')) (\<lambda>p.
     bindE (getitem data (''gas'', ''density'')) (\<lambda>d.
     bindE (np_binop (/) p d) (\<lambda>rv.
       Inr (map (\<lambda>x. x * (mass_hydrogen_cgs ext / boltzmann_constant_cgs ext)) rv))))"

definition species_density :: "string \<Rightarrow> data_ctx \<Rightarrow> error + ndarray" where
  "species_density species data =
     bindE (getitem data (''gas'', species @ ''_fraction'')) (\<lambda>f.
     bindE (getitem data (''gas'', ''density'')) (\<lambda>d.
       np_binop (*) f d))"

definition species_mass :: "string \<Rightarrow> data_ctx \<Rightarrow> error + ndarray" where
  "species_mass species data =
     bindE (getitem data (''gas'', species @ ''_density'')) (\<lambda>d.
     bindE (getitem data (''index'', ''cell_volume'')) (\<lambda>v.
       np_binop (*) d v))"

text \<open>\<^verbatim>\<open>astype("int64")\<close> truncates towards zero; \<^verbatim>\<open>a[i]\<close> counts a negative index from the end.\<close>

definition astype_int64 :: "real \<Rightarrow> int" where
  "astype_int64 x = (if 0 \<le> x then \<lfloor>x\<rfloor> else \<lceil>x\<rceil>)"

definition np_take :: "real list \<Rightarrow> int \<Rightarrow> error + real" where
  "np_take xs i =
     (let n = int (length xs); j = (if i < 0 then n + i else i)
      in if 0 \<le> j \<and> j < n then Inr (xs ! nat j) else Inl IndexError)"

definition photon_density :: "nat \<Rightarrow> real list \<Rightarrow> data_ctx \<Rightarrow> error + ndarray" where
  "photon_density igroup dens_conv data =
     bindE (getitem data (''index'', ''grid_level'')) (\<lambda>lvl.
     bindE (mapE (\<lambda>l. np_take dens_conv (astype_int64 l)) lvl) (\<lambda>dc.
     bindE (getitem data (''ramses-rt'', ''Photon_density_'' @ string_of_nat (igroup + 1))) (\<lambda>pd.
       np_binop (*) pd dc)))"

definition photon_flux :: "string \<Rightarrow> nat \<Rightarrow> real \<Rightarrow> data_ctx \<Rightarrow> error + ndarray" where
  "photon_flux key igroup flux_conv data =
     bindE (getitem data (''ramses-rt'', ''Photon_flux_'' @ key @ ''_'' @ string_of_nat (igroup + 1))) (\<lambda>pf.
       Inr (map (\<lambda>v. v * flux_conv) pf))"

subsubsection \<open>create_cooling_fields\<close>

text \<open>
  The dictionary \<^verbatim>\<open>d\<close> of \<^verbatim>\<open>_func\<close>: the query coordinates given to the interpolator.
\<close>

definition cool_query :: "externals \<Rightarrow> data_ctx \<Rightarrow> error + (string \<times> ndarray) list" where
  "cool_query ext data =
     bindE (getitem data (''gas'', ''temperature_over_mu'')) (\<lambda>shape_of.
     bindE (getitem data (''gas'', ''metallicity'')) (\<lambda>Z.
     bindE (getitem data (''gas'', ''density'')) (\<lambda>rho.
     bindE (np_binop (*) (map (\<lambda>z. (1 - Y_He) * (1 - z)) Z) rho) (\<lambda>x.
       let nH = map (\<lambda>v. v / mh ext) x;
           lognH =
             (if self_shielding (ds data)
              then map (\<lambda>n. log 10 (n / max (exp (- n / 0.01)) (1 / 10 ^ 20))) nH
              else map (\<lambda>n. log 10 (n / 1)) nH)
       in bindE (getitem data (''gas'', ''temperature_over_mu'')) (\<lambda>T.
            Inr [(''lognH'', lognH), (''logT'', map (log 10) T)])))))"

text \<open>
  The value \<^verbatim>\<open>rv\<close> of \<^verbatim>\<open>_func\<close>: the interpolated table entry, raised to the power of ten
  unless the field is \<^verbatim>\<open>mu\<close>.
\<close>

definition cool_rv :: "externals \<Rightarrow> field_key \<Rightarrow> interpolator \<Rightarrow> data_ctx \<Rightarrow> error + ndarray" where
  "cool_rv ext name interp_object data =
     bindE (cool_query ext data) (\<lambda>d.
     bindE (interp_call interp_object d) (\<lambda>rv0.
       if snd name \<noteq> ''mu''
       then bindE (interp_call interp_object d) (\<lambda>r. Inr (map (\<lambda>v. 10 powr v) r))
       else Inr rv0))"

definition cool_func ::
    "externals \<Rightarrow> field_key \<Rightarrow> interpolator \<Rightarrow> string option \<Rightarrow> data_ctx \<Rightarrow> error + ndarray" where
  "cool_func ext name interp_object unit data =
     bindE (cool_rv ext name interp_object data) (\<lambda>rv.
       if ''metal'' \<in> set (split_on (CHR ''_'') (snd name)) then
         bindE (getitem data (''gas'', ''metallicity'')) (\<lambda>Z.
         bindE (np_binop (*) rv Z) (\<lambda>c.
           Inr (map (\<lambda>v. v / 0.02) c)))
       else if ''compton'' \<in> set (split_on (CHR ''_'') (snd name)) then
         (case unit of
            None \<Rightarrow> Inl TypeError
          | Some u \<Rightarrow>
              bindE (getitem data (''gas'', ''number_density'')) (\<lambda>n.
                np_binop (/) rv n))
       else Inr rv)"

definition number_density :: "externals \<Rightarrow> data_ctx \<Rightarrow> error + ndarray" where
  "number_density ext data =
     bindE (getitem data (''gas'', ''density'')) (\<lambda>d.
     bindE (getitem data (''gas'', ''mu'')) (\<lambda>m.
       np_binop (/) (map (\<lambda>v. v / mp ext) d) m))"

definition all_cool :: "data_ctx \<Rightarrow> error + ndarray" where
  "all_cool data =
     bindE (getitem data (''gas'', ''cooling_primordial'')) (\<lambda>a.
     bindE (getitem data (''gas'', ''cooling_metal'')) (\<lambda>b.
     bindE (np_binop (+) a b) (\<lambda>ab.
     bindE (getitem data (''gas'', ''cooling_compton'')) (\<lambda>c.
       np_binop (+) ab c))))"

definition all_heat :: "data_ctx \<Rightarrow> error + ndarray" where
  "all_heat data =
     bindE (getitem data (''gas'', ''heating_primordial'')) (\<lambda>a.
     bindE (getitem data (''gas'', ''heating_compton'')) (\<lambda>b.
       np_binop (+) a b))"

definition net_cool :: "data_ctx \<Rightarrow> error + ndarray" where
  "net_cool data =
     bindE (getitem data (''gas'', ''cooling_total'')) (\<lambda>a.
     bindE (getitem data (''gas'', ''heating_total'')) (\<lambda>b.
       np_binop (-) a b))"

subsubsection \<open>Calling a registered field function\<close>

fun call_field :: "externals \<Rightarrow> field_fn \<Rightarrow> data_ctx \<Rightarrow> py_warning list \<times> (error + ndarray)" where
  "call_field ext (Alias_of k) data = ([], getitem data k)"
| "call_field ext Temperature_over_mu data = ([], temperature_over_mu ext data)"
| "call_field ext Temperature_with_mu data = ([], temperature_with_mu data)"
| "call_field ext Temperature_fallback data = temperature_fallback data"
| "call_field ext (Star_age_from_conformal_cosmo ptype) data =
     ([], star_age_from_conformal_cosmo ext ptype data)"
| "call_field ext (Star_age_from_physical_cosmo ptype) data =
     ([], star_age_from_physical_cosmo ext ptype data)"
| "call_field ext (Star_age ptype) data = ([], star_age ptype data)"
| "call_field ext Potential_energy data = ([], potential_energy data)"
| "call_field ext (Mag_field ax) data = ([], mag_field ax data)"
| "call_field ext DivB data = ([], divB data)"
| "call_field ext Temp_IR data = ([], temp_IR ext data)"
| "call_field ext (Species_density sp) data = ([], species_density sp data)"
| "call_field ext (Species_mass sp) data = ([], species_mass sp data)"
| "call_field ext (Photon_density igroup dens_conv) data = ([], photon_density igroup dens_conv data)"
| "call_field ext (Photon_flux key igroup flux_conv) data = ([], photon_flux key igroup flux_conv data)"
| "call_field ext (Cool_func name interp_object unit) data =
     ([], cool_func ext name interp_object unit data)"
| "call_field ext Number_density data = ([], number_density ext data)"
| "call_field ext All_cool data = ([], all_cool data)"
| "call_field ext All_heat data = ([], all_heat data)"
| "call_field ext Net_cool data = ([], net_cool data)"

subsection \<open>The registry\<close>

datatype unit_expr =
    Unit_system string
  | Unit_string string
  | Unit_none
  | Unit_one
  | Unit_quot unit_expr unit_expr
  | Unit_power unit_expr nat

record field_info =
  sampling_type :: string
  field_function :: field_fn
  units :: unit_expr

text \<open>
  The mutable state of the field container: the registry, the messages given to
  \<^verbatim>\<open>mylog.warning\<close>, \<^verbatim>\<open>self.species_names\<close> and \<^verbatim>\<open>self.ds.fluid_types\<close>.
\<close>

record field_state =
  registry :: "field_key \<Rightarrow> field_info option"
  mylog :: "string list"
  species_names :: "string list"
  fluid_types :: "string list"

text \<open>
  Modelled from the spec: \<^verbatim>\<open>add_field\<close> of the parent class \<^verbatim>\<open>FieldInfoContainer\<close>
  (not part of the sources at hand). Section 4.3 of the specification: a later
  registration of the same key overrides the earlier definition.
\<close>

definition add_field :: "field_key \<Rightarrow> string \<Rightarrow> field_fn \<Rightarrow> unit_expr \<Rightarrow> field_state \<Rightarrow> field_state" where
  "add_field name sampling f u st =
     st\<lparr>registry := (registry st)(name \<mapsto> \<lparr>sampling_type = sampling, field_function = f, units = u\<rparr>)\<rparr>"

text \<open>Modelled from the spec: \<^verbatim>\<open>key in self\<close> is the existence query of Section 4.3.\<close>

definition contains :: "field_state \<Rightarrow> field_key \<Rightarrow> bool" where
  "contains st k = (registry st k \<noteq> None)"

definition mylog_warning :: "string \<Rightarrow> field_state \<Rightarrow> field_state" where
  "mylog_warning msg st = st\<lparr>mylog := mylog st @ [msg]\<rparr>"

subsection \<open>setup_particle_fields\<close>

text \<open>
  The state \<open>st\<close> is the one \<^verbatim>\<open>super().setup_particle_fields(ptype)\<close> leaves behind.
\<close>

definition setup_particle_fields :: "dataset \<Rightarrow> string \<Rightarrow> field_state \<Rightarrow> field_state" where
  "setup_particle_fields dset ptype st =
     (let f = (if cosmological_simulation dset \<and> use_conformal_time dset
               then Star_age_from_conformal_cosmo ptype
               else if cosmological_simulation dset
               then Star_age_from_physical_cosmo ptype
               else Star_age ptype)
      in add_field (ptype, ''star_age'') ''particle'' f (Unit_system ''time'') st)"

subsection \<open>create_gravity_fields and create_magnetic_fields\<close>

definition create_gravity_fields :: "field_state \<Rightarrow> field_state" where
  "create_gravity_fields st =
     add_field (''gas'', ''potential_energy'') ''cell'' Potential_energy (Unit_system ''energy'') st"

fun add_mag_fields :: "string list \<Rightarrow> field_state \<Rightarrow> field_state" where
  "add_mag_fields [] st = st"
| "add_mag_fields (ax # axs) st =
     add_mag_fields axs
       (add_field (''gas'', ''magnetic_field_'' @ ax) ''cell'' (Mag_field ax)
          (Unit_system ''magnetic_field_cgs'') st)"

definition create_magnetic_fields :: "dataset \<Rightarrow> field_state \<Rightarrow> field_state" where
  "create_magnetic_fields dset st =
     add_field (''gas'', ''magnetic_field_divergence'') ''cell'' DivB
       (Unit_quot (Unit_system ''magnetic_field_cgs'') (Unit_system ''length''))
       (add_mag_fields (axis_order dset) st)"

subsection \<open>create_rt_fields\<close>

text \<open>
  The padding of \<^verbatim>\<open>rt_c_frac\<close>. The source measures \<^verbatim>\<open>len(["rt_c_frac"])\<close>, the length of
  a list holding one string.
\<close>

definition pad_rt_c_frac :: "real list \<Rightarrow> int \<Rightarrow> real list" where
  "pad_rt_c_frac c_frac maxlvl =
     (let pad_value = (if length c_frac = 1 then c_frac ! 0 else 1)
      in c_frac @ replicate (nat (max 0 (maxlvl - int (length [''rt_c_frac'']) + 1))) pad_value)"

definition pval_array :: "pval \<Rightarrow> error + real list" where
  "pval_array v = (case v of PArr a \<Rightarrow> Inr a | _ \<Rightarrow> Inl TypeError)"

definition pval_float :: "pval \<Rightarrow> error + real" where
  "pval_float v = (case v of PReal r \<Rightarrow> Inr r | PInt i \<Rightarrow> Inr (real_of_int i) | PArr a \<Rightarrow> Inl TypeError)"

definition pval_int :: "pval \<Rightarrow> error + int" where
  "pval_int v = (case v of PInt i \<Rightarrow> Inr i | _ \<Rightarrow> Inl TypeError)"

fun add_species_fields :: "string list \<Rightarrow> field_state \<Rightarrow> field_state" where
  "add_species_fields [] st = st"
| "add_species_fields (species # rest) st =
     add_species_fields rest
       (add_field (''gas'', species @ ''_mass'') ''cell'' (Species_mass species) (Unit_system ''mass'')
         (add_field (''gas'', species @ ''_density'') ''cell'' (Species_density species)
            (Unit_system ''density'') st))"

fun add_photon_density_fields :: "real list \<Rightarrow> nat list \<Rightarrow> field_state \<Rightarrow> field_state" where
  "add_photon_density_fields dens_conv [] st = st"
| "add_photon_density_fields dens_conv (igroup # rest) st =
     add_photon_density_fields dens_conv rest
       (add_field (''rt'', ''photon_density_'' @ string_of_nat (igroup + 1)) ''cell''
          (Photon_density igroup dens_conv) (Unit_system ''number_density'') st)"

definition rt_flux_unit :: unit_expr where
  "rt_flux_unit =
     Unit_quot (Unit_quot Unit_one (Unit_system ''time'')) (Unit_power (Unit_system ''length'') 2)"

fun add_photon_flux_fields :: "real \<Rightarrow> string \<Rightarrow> nat list \<Rightarrow> field_state \<Rightarrow> field_state" where
  "add_photon_flux_fields flux_conv key [] st = st"
| "add_photon_flux_fields flux_conv key (igroup # rest) st =
     add_photon_flux_fields flux_conv key rest
       (add_field (''rt'', ''photon_flux_'' @ key @ ''_'' @ string_of_nat (igroup + 1)) ''cell''
          (Photon_flux key igroup flux_conv) rt_flux_unit st)"

fun add_flux_keys :: "real \<Rightarrow> string list \<Rightarrow> nat list \<Rightarrow> field_state \<Rightarrow> field_state" where
  "add_flux_keys flux_conv [] groups st = st"
| "add_flux_keys flux_conv (key # keys) groups st =
     add_flux_keys flux_conv keys groups (add_photon_flux_fields flux_conv key groups st)"

text \<open>
  \<^verbatim>\<open>p\<close> is the handler's parameters updated with the dataset's, so the dataset's entry
  for a key is found first. A procedure returns the state it leaves and the error it
  raised, if any: what was registered before a \<^verbatim>\<open>raise\<close> stays registered.
\<close>

definition create_rt_fields :: "externals \<Rightarrow> dataset \<Rightarrow> field_state \<Rightarrow> field_state \<times> error option" where
  "create_rt_fields ext dset st0 =
     (let st = st0\<lparr>fluid_types := fluid_types st0 @ [''rt'']\<rparr>;
          p = parameters dset @ get_rt_parameters ext dset
      in case dict_get p ''nGroups'' of Inl e \<Rightarrow> (st, Some e) | Inr ngroups \<Rightarrow>
         (case bindE (dict_get p ''rt_c_frac'') pval_array of Inl e \<Rightarrow> (st, Some e) | Inr c_frac \<Rightarrow>
         (case bindE (dict_get p ''unit_l'') pval_float of Inl e \<Rightarrow> (st, Some e) | Inr unit_l \<Rightarrow>
         (case bindE (dict_get p ''unit_t'') pval_float of Inl e \<Rightarrow> (st, Some e) | Inr unit_t \<Rightarrow>
         if unit_t = 0 then (st, Some ZeroDivisionError) else
         (case bindE (dict_get p ''unit_np'') pval_float of Inl e \<Rightarrow> (st, Some e) | Inr unit_np \<Rightarrow>
           let rt_c_frac = pad_rt_c_frac c_frac (max_level dset);
               rt_c = map (\<lambda>f. f * speed_of_light ext / (unit_l / unit_t)) rt_c_frac;
               dens_conv = map (\<lambda>c. unit_np / c) rt_c;
               st1 = add_field (''gas'', ''temp_IR'') ''cell'' Temp_IR (Unit_system ''temperature'') st;
               st2 = add_species_fields [''H_p1'', ''He_p1'', ''He_p2''] st1
           in case pval_int ngroups of Inl e \<Rightarrow> (st2, Some e) | Inr n \<Rightarrow>
              (let groups = [0..<nat n];
                   st3 = add_photon_density_fields dens_conv groups st2
               in case bindE (dict_get p ''unit_pf'') pval_float of Inl e \<Rightarrow> (st3, Some e)
                  | Inr flux_conv \<Rightarrow>
                      (add_flux_keys flux_conv [''x'', ''y'', ''z''] groups st3, None)))))))"

subsection \<open>create_cooling_fields\<close>

definition cooling_function_units :: string where
  "cooling_function_units = '' erg * cm**3 /s''"

definition cooling_function_prime_units :: string where
  "cooling_function_prime_units = '' erg * cm**3 /s/K''"

definition number_density_unit :: string where
  "number_density_unit = ''1 / code_length**3''"

definition cool_axes :: "string list" where
  "cool_axes = [''lognH'', ''logT'']"

definition cool_arrs :: "(string \<times> string option) list" where
  "cool_arrs =
     [(''cooling_primordial'', Some cooling_function_units),
      (''heating_primordial'', Some cooling_function_units),
      (''cooling_compton'', Some cooling_function_units),
      (''heating_compton'', Some cooling_function_units),
      (''cooling_metal'', Some cooling_function_units),
      (''cooling_primordial_prime'', Some cooling_function_prime_units),
      (''heating_primordial_prime'', Some cooling_function_prime_units),
      (''cooling_compton_prime'', Some cooling_function_prime_units),
      (''heating_compton_prime'', Some cooling_function_prime_units),
      (''cooling_metal_prime'', Some cooling_function_prime_units),
      (''mu'', None),
      (''abundances'', None)]"

definition cool_species :: "string list" where
  "cool_species =
     [''Electron_number_density'', ''HI_number_density'', ''HII_number_density'',
      ''HeI_number_density'', ''HeII_number_density'', ''HeIII_number_density'']"

text \<open>
  Modelled from the spec: \<^verbatim>\<open>FortranFile.read_vector\<close> (not part of the sources at hand).
  Section 6 of the specification: a sequential read of typed vectors from a structured
  file, which fails with \<^verbatim>\<open>CorruptTableError\<close> on a short read.
\<close>

definition read_vector_i :: "fvec list \<Rightarrow> error + (int list \<times> fvec list)" where
  "read_vector_i fd =
     (case fd of IVec v # rest \<Rightarrow> Inr (v, rest) | _ \<Rightarrow> Inl CorruptTableError)"

definition read_vector_d :: "fvec list \<Rightarrow> error + (real list \<times> fvec list)" where
  "read_vector_d fd =
     (case fd of DVec v # rest \<Rightarrow> Inr (v, rest) | _ \<Rightarrow> Inl CorruptTableError)"

text \<open>The product of two 32-bit header counts wraps around.\<close>

definition wrap32 :: "int \<Rightarrow> int" where
  "wrap32 x = (x + 2 ^ 31) mod 2 ^ 32 - 2 ^ 31"

text \<open>
  \<^verbatim>\<open>var.reshape((n1, n2, k), order="F")[:, :, i]\<close> for \<open>off = n1 * n2 * i\<close>; with
  \<open>off = 0\<close> it is \<^verbatim>\<open>var.reshape((n1, n2), order="F")\<close>. The table is the list of its rows.
\<close>

definition reshape_F :: "nat \<Rightarrow> nat \<Rightarrow> real list \<Rightarrow> nat \<Rightarrow> real list list" where
  "reshape_F n1 n2 var off = map (\<lambda>i. map (\<lambda>j. var ! (off + i + n1 * j)) [0..<n2]) [0..<n1]"

text \<open>\<^verbatim>\<open>d[k] = v\<close> on a dictionary kept in insertion order.\<close>

fun dict_set :: "(string \<times> 'a) list \<Rightarrow> string \<Rightarrow> 'a \<Rightarrow> (string \<times> 'a) list" where
  "dict_set [] k v = [(k, v)]"
| "dict_set ((k', v') # d) k v = (if k' = k then (k, v) # d else (k', v') # dict_set d k v)"

type_synonym table_entry = "real list list \<times> string option"

fun species_loop ::
    "nat \<Rightarrow> nat \<Rightarrow> real list \<Rightarrow> nat list \<Rightarrow> (string \<times> table_entry) list
     \<Rightarrow> error + (string \<times> table_entry) list" where
  "species_loop n1 n2 var [] tvals = Inr tvals"
| "species_loop n1 n2 var (i # rest) tvals =
     (case py_index cool_species i of
        Inl e \<Rightarrow> Inl e
      | Inr sp \<Rightarrow>
          species_loop n1 n2 var rest
            (dict_set tvals sp (reshape_F n1 n2 var (n1 * n2 * i), Some ''1/cm**3'')))"

text \<open>
  The body of the loop over \<^verbatim>\<open>_cool_arrs\<close> once \<^verbatim>\<open>var\<close> is read. \<open>Inr None\<close> is the
  early \<^verbatim>\<open>return False\<close> of the legacy format. A negative dimension makes
  \<^verbatim>\<open>reshape\<close> raise ValueError, and so does a size that is not the product of the
  dimensions.
\<close>

definition cool_arr_step ::
    "int \<Rightarrow> int \<Rightarrow> nat \<Rightarrow> string \<Rightarrow> string option \<Rightarrow> real list \<Rightarrow> (string \<times> table_entry) list
     \<Rightarrow> error + (string \<times> table_entry) list option" where
  "cool_arr_step n1 n2 i tname unit var tvals =
     (if int (length var) = n1 \<and> i = 0 then Inr None
      else if int (length var) = wrap32 (n1 * n2) then
        (if n1 < 0 \<or> n2 < 0 \<or> n1 * n2 \<noteq> int (length var) then Inl ValueError
         else Inr (Some (dict_set tvals tname (reshape_F (nat n1) (nat n2) var 0, unit))))
      else
        (let k = int (length var) div wrap32 (n1 * n2)
         in if n1 < 0 \<or> n2 < 0 \<or> k < 0 \<or> n1 * n2 * k \<noteq> int (length var) then Inl ValueError
            else (case species_loop (nat n1) (nat n2) var [0..<nat k] tvals of
                    Inl e \<Rightarrow> Inl e
                  | Inr tvals' \<Rightarrow> Inr (Some tvals'))))"

fun cool_arr_loop ::
    "int \<Rightarrow> int \<Rightarrow> nat \<Rightarrow> (string \<times> string option) list \<Rightarrow> fvec list
     \<Rightarrow> (string \<times> table_entry) list \<Rightarrow> error + (string \<times> table_entry) list option" where
  "cool_arr_loop n1 n2 i [] fd tvals = Inr (Some tvals)"
| "cool_arr_loop n1 n2 i ((tname, unit) # rest) fd tvals =
     (case read_vector_d fd of
        Inl e \<Rightarrow> Inl e
      | Inr (var, fd') \<Rightarrow>
          (case cool_arr_step n1 n2 i tname unit var tvals of
             Inl e \<Rightarrow> Inl e
           | Inr None \<Rightarrow> Inr None
           | Inr (Some tvals') \<Rightarrow> cool_arr_loop n1 n2 (Suc i) rest fd' tvals'))"

fun read_axes ::
    "string list \<Rightarrow> fvec list \<Rightarrow> (string \<times> ndarray) list
     \<Rightarrow> error + ((string \<times> ndarray) list \<times> fvec list)" where
  "read_axes [] fd avals = Inr (avals, fd)"
| "read_axes (ax # rest) fd avals =
     (case read_vector_d fd of
        Inl e \<Rightarrow> Inl e
      | Inr (v, fd') \<Rightarrow> read_axes rest fd' (dict_set avals ax v))"

text \<open>
  The block \<^verbatim>\<open>with FortranFile(filename) as fd\<close>: the axes and the tables, or \<open>None\<close>
  for the early \<^verbatim>\<open>return False\<close>.
\<close>

definition load_cooling_file ::
    "fvec list \<Rightarrow> error + ((string \<times> ndarray) list \<times> (string \<times> table_entry) list) option" where
  "load_cooling_file fd =
     (case read_vector_i fd of
        Inl e \<Rightarrow> Inl e
      | Inr (header, fd1) \<Rightarrow>
          (case header of
             [n1, n2] \<Rightarrow>
               (case read_axes cool_axes fd1 [] of
                  Inl e \<Rightarrow> Inl e
                | Inr (avals, fd2) \<Rightarrow>
                    (case cool_arr_loop n1 n2 0 cool_arrs fd2 [] of
                       Inl e \<Rightarrow> Inl e
                     | Inr None \<Rightarrow> Inr None
                     | Inr (Some tvals) \<Rightarrow> Inr (Some (avals, tvals))))
           | _ \<Rightarrow> Inl ValueError))"

definition create_field :: "field_key \<Rightarrow> interpolator \<Rightarrow> string option \<Rightarrow> field_state \<Rightarrow> field_state" where
  "create_field name interp_object unit st =
     add_field name ''cell'' (Cool_func name interp_object unit)
       (case unit of None \<Rightarrow> Unit_none | Some u \<Rightarrow> Unit_string u) st"

text \<open>The loop \<^verbatim>\<open>for key in tvals\<close> that registers every table but \<^verbatim>\<open>mu\<close>.\<close>

fun add_table_fields ::
    "ndarray \<Rightarrow> ndarray \<Rightarrow> (string \<times> table_entry) list \<Rightarrow> field_state \<Rightarrow> field_state" where
  "add_table_fields lognH logT [] st = st"
| "add_table_fields lognH logT ((key, entry) # rest) st =
     add_table_fields lognH logT rest
       (if key \<noteq> ''mu''
        then create_field (''gas'', key)
               (BilinearFieldInterpolator (fst entry) (lognH, logT) [''lognH'', ''logT''] True)
               (snd entry) st
        else st)"

text \<open>
  The names and units \<^verbatim>\<open>_create_field\<close> can be called with: \<^verbatim>\<open>mu\<close>, the names of
  \<^verbatim>\<open>_cool_arrs\<close> and the species of \<^verbatim>\<open>_cool_species\<close> (lemma
  \<open>create_cooling_fields_cool_funcs\<close> below).
\<close>

definition created_cooling_fields :: "(string \<times> string option) list" where
  "created_cooling_fields =
     (''mu'', Some ''dimensionless'') # cool_arrs @ map (\<lambda>sp. (sp, Some ''1/cm**3'')) cool_species"

text \<open>The name of the cooling file of the dataset, as the first two lines compute it.\<close>

definition cooling_filename :: "externals \<Rightarrow> dataset \<Rightarrow> error + string" where
  "cooling_filename ext dset =
     bindE (py_index (split_on (CHR ''.'') (basename dset)) 0) (\<lambda>stem.
     bindE (py_index (split_on (CHR ''_'') stem) 1) (\<lambda>digits.
       case py_int ext digits of
         None \<Rightarrow> Inl ValueError
       | Some num \<Rightarrow> Inr (path_join (directory dset) (''cooling_'' @ format_05 num @ ''.out''))))"

text \<open>The message logged for a cooling file of the format used before 2010.\<close>

definition legacy_warning :: string where
  "legacy_warning = ''This cooling file format is no longer supported. Cooling field loading skipped.''"

definition create_cooling_fields ::
    "externals \<Rightarrow> dataset \<Rightarrow> field_state \<Rightarrow> field_state \<times> (error + bool)" where
  "create_cooling_fields ext dset st =
     (case cooling_filename ext dset of
        Inl e \<Rightarrow> (st, Inl e)
      | Inr filename \<Rightarrow>
          (case files ext filename of
             None \<Rightarrow> (mylog_warning ''This output has no cooling fields'' st, Inr False)
           | Some fd \<Rightarrow>
               (case load_cooling_file fd of
                  Inl e \<Rightarrow> (st, Inl e)
                | Inr None \<Rightarrow>
                    (mylog_warning legacy_warning st, Inr False)
                | Inr (Some (avals, tvals)) \<Rightarrow>
                    (case dict_get tvals ''mu'' of
                       Inl e \<Rightarrow> (st, Inl e)
                     | Inr mu \<Rightarrow>
                         (case dict_get avals ''lognH'' of
                            Inl e \<Rightarrow> (st, Inl e)
                          | Inr lognH \<Rightarrow>
                              (case dict_get avals ''logT'' of
                                 Inl e \<Rightarrow> (st, Inl e)
                               | Inr logT \<Rightarrow>
                                   (let interp = BilinearFieldInterpolator (fst mu) (lognH, logT)
                                                   [''lognH'', ''logT''] True;
                                        st1 = create_field (''gas'', ''mu'') interp (Some ''dimensionless'') st;
                                        st2 = add_field (''gas'', ''number_density'') ''cell'' Number_density
                                                (Unit_string number_density_unit) st1;
                                        st3 = add_table_fields lognH logT tvals st2;
                                        st4 = add_field (''gas'', ''cooling_total'') ''cell'' All_cool
                                                (Unit_string cooling_function_units) st3;
                                        st5 = add_field (''gas'', ''heating_total'') ''cell'' All_heat
                                                (Unit_string cooling_function_units) st4;
                                        st6 = add_field (''gas'', ''cooling_net'') ''cell'' Net_cool
                                                (Unit_string cooling_function_units) st5
                                    in (st6, Inr True))))))))"

subsection \<open>setup_fluid_fields\<close>

definition known_species_names :: "(string \<times> string) list" where
  "known_species_names =
     [(''HI'', ''H_p0''), (''HII'', ''H_p1''), (''Electron'', ''El''), (''HeI'', ''He_p0''),
      (''HeII'', ''He_p1''), (''HeIII'', ''He_p2''), (''H2I'', ''H2_p0''), (''H2II'', ''H2_p1''),
      (''HM'', ''H_m1''), (''DI'', ''D_p0''), (''DII'', ''D_p1''), (''HDI'', ''HD_p0'')]"

text \<open>
  The part of \<^verbatim>\<open>setup_fluid_fields\<close> after the temperature field is registered: the
  species names, then the radiative-transfer, magnetic and gravity families.
\<close>

definition setup_optional_families ::
    "externals \<Rightarrow> dataset \<Rightarrow> field_state \<Rightarrow> field_state \<times> error option" where
  "setup_optional_families ext dset st0 =
     (let st = st0\<lparr>species_names :=
                  List.map_filter (\<lambda>(ft, fn). map_of known_species_names fn) (field_list ext)\<rparr>;
          (st1, err) = (if rt_any_exist ext dset then create_rt_fields ext dset st else (st, None))
      in case err of
           Some e \<Rightarrow> (st1, Some e)
         | None \<Rightarrow>
             (let st2 = (if contains st1 (''gas'', ''magnetic_field_x_left'')
                         then create_magnetic_fields dset st1 else st1);
                  st3 = (if contains st2 (''gravity'', ''Potential'')
                         then create_gravity_fields st2 else st2)
              in (st3, None)))"

definition setup_fluid_fields ::
    "externals \<Rightarrow> dataset \<Rightarrow> field_state \<Rightarrow> field_state \<times> error option" where
  "setup_fluid_fields ext dset st0 =
     (let st1 = add_field (''gas'', ''temperature_over_mu'') ''cell'' Temperature_over_mu
                  (Unit_system ''temperature'') st0
      in case create_cooling_fields ext dset st1 of
           (st2, Inl e) \<Rightarrow> (st2, Some e)
         | (st2, Inr found_cooling_fields) \<Rightarrow>
             (let temperature = (if found_cooling_fields then Temperature_with_mu
                                 else Temperature_fallback);
                  st3 = add_field (''gas'', ''temperature'') ''cell'' temperature
                          (Unit_system ''temperature'') st2
              in setup_optional_families ext dset st3))"

subsection \<open>Example inputs\<close>

text \<open>
  Python's \<^verbatim>\<open>int\<close> on a non-empty string of ASCII digits; the examples give it nothing
  else.
\<close>

definition decimal_int :: "string \<Rightarrow> int option" where
  "decimal_int s =
     (if s \<noteq> [] \<and> list_all (\<lambda>c. (48::nat) \<le> of_char c \<and> of_char c \<le> (57::nat)) s
      then Some (foldl (\<lambda>acc c. 10 * acc + (int (of_char c :: nat) - 48)) 0 s)
      else None)"

text \<open>
  Output 80 of a non-cosmological run on three refinement levels, with every constant and
  conversion factor set to one, no radiative transfer, and the given content of the file
  \<^verbatim>\<open>output_00080/cooling_00080.out\<close> (\<open>None\<close> when the file does not exist).
\<close>

definition example_ds :: dataset where
  "example_ds =
     \<lparr>basename = ''info_00080.txt'', directory = ''output_00080'',
      cosmological_simulation = False, use_conformal_time = False, self_shielding = False,
      max_level = 3, axis_order = [''x'', ''y'', ''z''], current_time = 10,
      hubble_constant = 1, parameters = []\<rparr>"

definition example_ext :: "fvec list option \<Rightarrow> externals" where
  "example_ext cooling_file =
     \<lparr>py_int = decimal_int,
      files = (\<lambda>f. if f = ''output_00080/cooling_00080.out'' then cooling_file else None),
      mh = 1, mp = 1, mass_hydrogen_cgs = 1, boltzmann_constant_cgs = 1, speed_of_light = 1,
      convert_ramses_conformal_time_to_physical_time = (\<lambda>d a. a),
      t_frw = (\<lambda>d z. 1), km_s_Mpc_to_per_Gyr = (\<lambda>h. h), time_to_Gyr = (\<lambda>t. t),
      rt_any_exist = (\<lambda>d. False), get_rt_parameters = (\<lambda>d. []), field_list = []\<rparr>"

definition example_state :: "(field_key \<times> field_info) list \<Rightarrow> field_state" where
  "example_state known = \<lparr>registry = map_of known, mylog = [], species_names = [], fluid_types = []\<rparr>"

definition example_data :: "bool \<Rightarrow> (field_key \<times> ndarray) list \<Rightarrow> data_ctx" where
  "example_data detector vals =
     \<lparr>is_field_detector = detector, field_values = map_of vals, ds = example_ds\<rparr>"


definition example_mag_values :: "(field_key \<times> ndarray) list" where
  "example_mag_values =
     [((''gas'', ''magnetic_field_x_left''), [1]), ((''gas'', ''magnetic_field_x_right''), [3]),
      ((''gas'', ''magnetic_field_y_left''), [0]), ((''gas'', ''magnetic_field_y_right''), [0]),
      ((''gas'', ''magnetic_field_z_left''), [0]), ((''gas'', ''magnetic_field_z_right''), [0]),
      ((''gas'', ''dx''), [1 / 2])]"

definition example_mag_known :: "(field_key \<times> field_info) list" where
  "example_mag_known =
     [((''gas'', ''magnetic_field_x_left''),
       \<lparr>sampling_type = ''cell'', field_function = Alias_of (''ramses'', ''B_x_left''),
        units = Unit_string ''code_magnetic''\<rparr>)]"


definition example_cooling_file :: "fvec list" where
  "example_cooling_file =
     [IVec [2, 2], DVec [0, 1], DVec [4, 5],
      DVec [0, 0, 0, 0], DVec [0, 0, 0, 0], DVec [0, 0, 0, 0], DVec [0, 0, 0, 0],
      DVec [0, 0, 0, 0], DVec [0, 0, 0, 0], DVec [0, 0, 0, 0], DVec [0, 0, 0, 0],
      DVec [0, 0, 0, 0], DVec [0, 0, 0, 0],
      DVec [1, 12 / 10, 1, 12 / 10],
      DVec (replicate 24 0)]"

definition example_temperature_values :: "(field_key \<times> ndarray) list" where
  "example_temperature_values =
     [((''gas'', ''temperature_over_mu''), [100, 200]), ((''gas'', ''mu''), [1 / 2, 2])]"


definition example_star_values :: "(field_key \<times> ndarray) list" where
  "example_star_values =
     [((''io'', ''particle_birth_time''), [3]), ((''io'', ''conformal_birth_time''), [3])]"

definition example_cooling_values :: "real \<Rightarrow> (field_key \<times> ndarray) list" where
  "example_cooling_values nH =
     [((''gas'', ''temperature_over_mu''), [10000]), ((''gas'', ''metallicity''), [0]),
      ((''gas'', ''density''), [nH * 100 / 76])]"


definition example_legacy_file :: "fvec list" where
  "example_legacy_file = [IVec [2, 2], DVec [0, 1], DVec [4, 5], DVec [0, 0]]"


definition example_scaling_values :: "(field_key \<times> ndarray) list" where
  "example_scaling_values =
     [((''gas'', ''temperature_over_mu''), [10000]), ((''gas'', ''metallicity''), [1 / 50]),
      ((''gas'', ''density''), [10000 / 7448]), ((''gas'', ''number_density''), [2])]"

definition example_mu_interpolator :: interpolator where
  "example_mu_interpolator =
     BilinearFieldInterpolator [[1, 1], [12 / 10, 12 / 10]] ([0, 1], [4, 5]) [''lognH'', ''logT''] True"


section \<open>Auxiliary lemmas\<close>

subsection \<open>The magnetic field functions\<close>

lemma registry_add_field:
  "registry (add_field k s f u st) k' =
     (if k' = k then Some \<lparr>sampling_type = s, field_function = f, units = u\<rparr> else registry st k')"
  by (simp add: add_field_def)

lemma add_mag_fields_registry:
  "registry (add_mag_fields axs st) (''gas'', ''magnetic_field_'' @ ax) =
     (if ax \<in> set axs
      then Some \<lparr>sampling_type = ''cell'', field_function = Mag_field ax,
                 units = Unit_system ''magnetic_field_cgs''\<rparr>
      else registry st (''gas'', ''magnetic_field_'' @ ax))"
  by (induction axs arbitrary: st) (auto simp: registry_add_field)

lemma add_mag_fields_other:
  "\<forall>ax \<in> set axs. k \<noteq> (''gas'', ''magnetic_field_'' @ ax) \<Longrightarrow>
     registry (add_mag_fields axs st) k = registry st k"
  by (induction axs arbitrary: st) (auto simp: registry_add_field)

lemma np_binop_same_length: "length xs = length ys \<Longrightarrow> np_binop f xs ys = Inr (map2 f xs ys)"
  by (simp add: np_binop_def)

lemma mag_field_value:
  assumes "getitem data (''gas'', ''magnetic_field_'' @ ax @ ''_left'') = Inr l"
    and "getitem data (''gas'', ''magnetic_field_'' @ ax @ ''_right'') = Inr r"
    and "length l = length r"
  shows "mag_field ax data = Inr (map2 (\<lambda>a b. (a + b) / 2) l r)"
  using assms by (simp add: mag_field_def np_binop_same_length map_zip_map zip_map1 zip_map2 split_def)

lemma divB_loop_value:
  assumes "\<forall>ax \<in> set axs.
             getitem data (''gas'', ''magnetic_field_'' @ ax @ ''_right'') = Inr (R ax) \<and>
             getitem data (''gas'', ''magnetic_field_'' @ ax @ ''_left'') = Inr (L ax) \<and>
             length (R ax) = length out \<and> length (L ax) = length out"
  shows "divB_loop data axs out =
           Inr (map (\<lambda>i. out ! i + (\<Sum>ax\<leftarrow>axs. R ax ! i - L ax ! i)) [0..<length out])"
  using assms
proof (induction axs arbitrary: out)
  case Nil
  then show ?case by (simp add: map_nth)
next
  case (Cons ax axs)
  let ?d = "map2 (-) (R ax) (L ax)"
  let ?out = "map2 (+) out ?d"
  have len: "length ?out = length out" using Cons.prems by simp
  have step: "divB_loop data (ax # axs) out = divB_loop data axs ?out"
    using Cons.prems by (simp add: np_binop_same_length np_iadd_def)
  have "\<forall>a \<in> set axs.
             getitem data (''gas'', ''magnetic_field_'' @ a @ ''_right'') = Inr (R a) \<and>
             getitem data (''gas'', ''magnetic_field_'' @ a @ ''_left'') = Inr (L a) \<and>
             length (R a) = length ?out \<and> length (L a) = length ?out"
    using Cons.prems len by simp
  from Cons.IH [OF this] have
    "divB_loop data axs ?out =
       Inr (map (\<lambda>i. ?out ! i + (\<Sum>a\<leftarrow>axs. R a ! i - L a ! i)) [0..<length ?out])" .
  moreover have "map (\<lambda>i. ?out ! i + (\<Sum>a\<leftarrow>axs. R a ! i - L a ! i)) [0..<length ?out]
      = map (\<lambda>i. out ! i + (\<Sum>a\<leftarrow>ax # axs. R a ! i - L a ! i)) [0..<length out]"
    using Cons.prems len by (auto simp: algebra_simps)
  ultimately show ?case using step by simp
qed

lemma divB_value:
  assumes axes: "\<forall>ax \<in> set (axis_order (ds data)).
             getitem data (''gas'', ''magnetic_field_'' @ ax @ ''_right'') = Inr (R ax) \<and>
             getitem data (''gas'', ''magnetic_field_'' @ ax @ ''_left'') = Inr (L ax) \<and>
             length (R ax) = n \<and> length (L ax) = n"
    and z: "getitem data (''gas'', ''magnetic_field_x_right'') = Inr z" "length z = n"
    and dx: "getitem data (''gas'', ''dx'') = Inr dx" "length dx = n"
  shows "divB data =
           Inr (map (\<lambda>i. (\<Sum>ax\<leftarrow>axis_order (ds data). R ax ! i - L ax ! i) / dx ! i) [0..<n])"
proof -
  have "divB_loop data (axis_order (ds data)) (zeros_like z) =
          Inr (map (\<lambda>i. zeros_like z ! i + (\<Sum>ax\<leftarrow>axis_order (ds data). R ax ! i - L ax ! i))
                 [0..<length (zeros_like z)])"
    by (rule divB_loop_value) (use axes z in \<open>simp add: zeros_like_def\<close>)
  also have "\<dots> = Inr (map (\<lambda>i. (\<Sum>ax\<leftarrow>axis_order (ds data). R ax ! i - L ax ! i)) [0..<n])"
    using z by (simp add: zeros_like_def)
  finally have loop: "divB_loop data (axis_order (ds data)) (zeros_like z) =
      Inr (map (\<lambda>i. (\<Sum>ax\<leftarrow>axis_order (ds data). R ax ! i - L ax ! i)) [0..<n])" .
  show ?thesis
    using z dx loop
    by (simp add: divB_def np_binop_same_length)
       (auto intro!: nth_equalityI)
qed

subsection \<open>Registrations only add\<close>

lemma contains_add_field: "contains st k \<Longrightarrow> contains (add_field k' s f u st) k"
  by (simp add: contains_def add_field_def)

lemma contains_add_species_fields: "contains st k \<Longrightarrow> contains (add_species_fields sps st) k"
  by (induction sps arbitrary: st) (simp_all add: contains_add_field)

lemma contains_add_photon_density_fields:
  "contains st k \<Longrightarrow> contains (add_photon_density_fields dc gs st) k"
  by (induction gs arbitrary: st) (simp_all add: contains_add_field)

lemma contains_add_photon_flux_fields:
  "contains st k \<Longrightarrow> contains (add_photon_flux_fields fc key gs st) k"
  by (induction gs arbitrary: st) (simp_all add: contains_add_field)

lemma contains_add_flux_keys: "contains st k \<Longrightarrow> contains (add_flux_keys fc keys gs st) k"
  by (induction keys arbitrary: st) (simp_all add: contains_add_photon_flux_fields)

lemma contains_fluid_types: "contains (st\<lparr>fluid_types := x\<rparr>) k = contains st k"
  by (simp add: contains_def)

lemma contains_species_names: "contains (st\<lparr>species_names := x\<rparr>) k = contains st k"
  by (simp add: contains_def)

lemma contains_create_rt_fields:
  "contains st k \<Longrightarrow> contains (fst (create_rt_fields ext dset st)) k"
  unfolding create_rt_fields_def Let_def
  by (simp split: sum.split del: add_species_fields.simps add_flux_keys.simps
        add: contains_fluid_types contains_add_field contains_add_species_fields
        contains_add_photon_density_fields contains_add_flux_keys)

subsection \<open>Keys the optional families leave alone\<close>

lemma registry_add_photon_density_fields_other:
  "fst k \<noteq> ''rt'' \<Longrightarrow> registry (add_photon_density_fields dc gs st) k = registry st k"
  by (induction gs arbitrary: st) (auto simp: registry_add_field)

lemma registry_add_photon_flux_fields_other:
  "fst k \<noteq> ''rt'' \<Longrightarrow> registry (add_photon_flux_fields fc key gs st) k = registry st k"
  by (induction gs arbitrary: st) (auto simp: registry_add_field)

lemma registry_create_rt_fields_temperature:
  "registry (fst (create_rt_fields ext dset st)) (''gas'', ''temperature'') =
     registry st (''gas'', ''temperature'')"
  unfolding create_rt_fields_def Let_def
  by (simp split: sum.split add: registry_add_field registry_add_photon_flux_fields_other
        registry_add_photon_density_fields_other)

lemma registry_create_magnetic_fields_temperature:
  "registry (create_magnetic_fields dset st) (''gas'', ''temperature'') =
     registry st (''gas'', ''temperature'')"
  by (simp add: create_magnetic_fields_def registry_add_field add_mag_fields_other)

lemma registry_setup_optional_families_temperature:
  "registry (fst (setup_optional_families ext dset st)) (''gas'', ''temperature'') =
     registry st (''gas'', ''temperature'')"
proof -
  define sA where
    "sA = st\<lparr>species_names :=
              List.map_filter (\<lambda>(ft, fn). map_of known_species_names fn) (field_list ext)\<rparr>"
  obtain st1 err where
    rt: "(if rt_any_exist ext dset then create_rt_fields ext dset sA else (sA, None)) = (st1, err)"
    by fastforce
  have "st1 = (if rt_any_exist ext dset then fst (create_rt_fields ext dset sA) else sA)"
    using rt by (auto split: if_splits dest: arg_cong [where f = fst])
  then have r1: "registry st1 (''gas'', ''temperature'') = registry st (''gas'', ''temperature'')"
    by (simp add: registry_create_rt_fields_temperature sA_def)
  show ?thesis
    unfolding setup_optional_families_def Let_def sA_def [symmetric] rt
    using r1
    by (simp split: option.split
          add: registry_create_magnetic_fields_temperature create_gravity_fields_def
               registry_add_field)
qed

subsection \<open>The temperature field through setup_fluid_fields\<close>

lemma string_of_nat_80: "string_of_nat 80 = ''80''"
  by code_simp

lemma example_cooling_filename:
  "cooling_filename (example_ext f) example_ds = Inr ''output_00080/cooling_00080.out''"
  by (simp add: cooling_filename_def example_ext_def example_ds_def py_index_def decimal_int_def
        format_05_def zfill_def path_join_def string_of_nat_80 numeral_3_eq_3)

lemma snd_create_cooling_fields_state:
  "snd (create_cooling_fields ext dset st) = snd (create_cooling_fields ext dset st')"
  by (simp add: create_cooling_fields_def Let_def split: sum.split option.split prod.split)

lemma contains_mylog_warning: "contains (mylog_warning m st) k = contains st k"
  by (simp add: contains_def mylog_warning_def)

lemma contains_create_field: "contains st k \<Longrightarrow> contains (create_field n i u st) k"
  by (simp add: create_field_def contains_add_field)

lemma contains_add_table_fields: "contains st k \<Longrightarrow> contains (add_table_fields a b tv st) k"
  by (induction tv arbitrary: st) (auto simp: contains_create_field)

lemma contains_create_cooling_fields:
  "contains st k \<Longrightarrow> contains (fst (create_cooling_fields ext dset st)) k"
  by (simp add: create_cooling_fields_def Let_def contains_mylog_warning contains_add_field
        contains_create_field contains_add_table_fields
        split: sum.split option.split prod.split)

lemma setup_fluid_fields_temperature:
  assumes "snd (create_cooling_fields ext dset st') = Inr found"
  shows "registry (fst (setup_fluid_fields ext dset st0)) (''gas'', ''temperature'') =
           Some \<lparr>sampling_type = ''cell'',
                 field_function = (if found then Temperature_with_mu else Temperature_fallback),
                 units = Unit_system ''temperature''\<rparr>"
proof -
  define st1 where "st1 = add_field (''gas'', ''temperature_over_mu'') ''cell'' Temperature_over_mu
                  (Unit_system ''temperature'') st0"
  obtain st2 where c: "create_cooling_fields ext dset st1 = (st2, Inr found)"
    using assms snd_create_cooling_fields_state [of ext dset st1 st']
    by (cases "create_cooling_fields ext dset st1") simp
  show ?thesis
    unfolding setup_fluid_fields_def Let_def st1_def [symmetric] c
    by (simp add: registry_setup_optional_families_temperature registry_add_field)
qed

lemma setup_optional_families_returns:
  assumes "setup_optional_families ext dset st0 = (st, None)"
  shows "\<exists>st1. (\<forall>k. contains st0 k \<longrightarrow> contains st1 k) \<and>
           st = (let st2 = (if contains st1 (''gas'', ''magnetic_field_x_left'')
                         then create_magnetic_fields dset st1 else st1)
                 in if contains st2 (''gravity'', ''Potential'')
                    then create_gravity_fields st2 else st2)"
proof -
  define sA where
    "sA = st0\<lparr>species_names :=
              List.map_filter (\<lambda>(ft, fn). map_of known_species_names fn) (field_list ext)\<rparr>"
  obtain st1 err where
    rt: "(if rt_any_exist ext dset then create_rt_fields ext dset sA else (sA, None)) = (st1, err)"
    by fastforce
  have "st1 = (if rt_any_exist ext dset then fst (create_rt_fields ext dset sA) else sA)"
    using rt by (auto split: if_splits dest: arg_cong [where f = fst])
  then have mono: "\<forall>k. contains st0 k \<longrightarrow> contains st1 k"
    by (simp add: contains_create_rt_fields sA_def contains_species_names)
  have "err = None \<and> st = (let st2 = (if contains st1 (''gas'', ''magnetic_field_x_left'')
                         then create_magnetic_fields dset st1 else st1)
                 in if contains st2 (''gravity'', ''Potential'')
                    then create_gravity_fields st2 else st2)"
    using assms unfolding setup_optional_families_def Let_def sA_def [symmetric] rt
    by (auto split: option.splits)
  with mono show ?thesis by blast
qed

lemma setup_fluid_fields_returns:
  assumes "setup_fluid_fields ext dset st0 = (st, None)"
  shows "\<exists>st1. (\<forall>k. contains st0 k \<longrightarrow> contains st1 k) \<and>
           st = (let st2 = (if contains st1 (''gas'', ''magnetic_field_x_left'')
                         then create_magnetic_fields dset st1 else st1)
                 in if contains st2 (''gravity'', ''Potential'')
                    then create_gravity_fields st2 else st2)"
proof -
  define sa where "sa = add_field (''gas'', ''temperature_over_mu'') ''cell'' Temperature_over_mu
                  (Unit_system ''temperature'') st0"
  obtain sb r where c: "create_cooling_fields ext dset sa = (sb, r)"
    by fastforce
  have sb: "sb = fst (create_cooling_fields ext dset sa)" using c by simp
  from assms obtain found where r: "r = Inr found"
    unfolding setup_fluid_fields_def Let_def sa_def [symmetric] c
    by (cases r) auto
  define sc where "sc = add_field (''gas'', ''temperature'') ''cell''
     (if found then Temperature_with_mu else Temperature_fallback) (Unit_system ''temperature'') sb"
  have "setup_optional_families ext dset sc = (st, None)"
    using assms unfolding setup_fluid_fields_def Let_def sa_def [symmetric] c r sc_def by simp
  from setup_optional_families_returns [OF this] obtain st1 where
    st1: "\<forall>k. contains sc k \<longrightarrow> contains st1 k"
      "st = (let st2 = (if contains st1 (''gas'', ''magnetic_field_x_left'')
                         then create_magnetic_fields dset st1 else st1)
                 in if contains st2 (''gravity'', ''Potential'')
                    then create_gravity_fields st2 else st2)"
    by blast
  have "\<forall>k. contains st0 k \<longrightarrow> contains sc k"
    by (simp add: sc_def sb sa_def contains_add_field contains_create_cooling_fields)
  with st1 show ?thesis by blast
qed

lemma example_create_cooling_fields_absent:
  "create_cooling_fields (example_ext None) example_ds st =
     (mylog_warning ''This output has no cooling fields'' st, Inr False)"
  by (simp add: create_cooling_fields_def example_cooling_filename) (simp add: example_ext_def)

lemma example_setup_no_error:
  "snd (setup_fluid_fields (example_ext None) example_ds st) = None"
  by (simp add: setup_fluid_fields_def example_create_cooling_fields_absent
        setup_optional_families_def Let_def)
     (simp add: example_ext_def)

lemma example_load_mu:
  "case load_cooling_file example_cooling_file of
     Inr (Some (avals, tvals)) \<Rightarrow>
       avals = [(''lognH'', [0, 1]), (''logT'', [4, 5])] \<and>
       map_of tvals ''mu'' = Some ([[1, 1], [12 / 10, 12 / 10]], None)
   | _ \<Rightarrow> False"
  by code_simp

lemma example_create_cooling_fields_found:
  "snd (create_cooling_fields (example_ext (Some example_cooling_file)) example_ds st) = Inr True"
proof -
  obtain avals tvals where
    l: "load_cooling_file example_cooling_file = Inr (Some (avals, tvals))"
    and a: "avals = [(''lognH'', [0, 1]), (''logT'', [4, 5])]"
    and m: "map_of tvals ''mu'' = Some ([[1, 1], [12 / 10, 12 / 10]], None)"
    using example_load_mu by (auto split: sum.splits option.splits)
  have f: "files (example_ext (Some example_cooling_file)) ''output_00080/cooling_00080.out''
             = Some example_cooling_file"
    by (simp add: example_ext_def)
  show ?thesis
    by (simp add: create_cooling_fields_def example_cooling_filename f l a m dict_get_def Let_def)
qed

subsection \<open>The padding of rt_c_frac\<close>

lemma length_pad_rt_c_frac:
  "length (pad_rt_c_frac xs m) = length xs + nat (max 0 m)"
  by (simp add: pad_rt_c_frac_def Let_def)

lemma pad_rt_c_frac_covers_levels:
  "xs \<noteq> [] \<Longrightarrow> m + 1 \<le> int (length (pad_rt_c_frac xs m))"
  by (cases xs) (simp_all add: length_pad_rt_c_frac)

lemma pad_rt_c_frac_pad_value:
  "length xs \<le> i \<Longrightarrow> i < length (pad_rt_c_frac xs m) \<Longrightarrow>
     pad_rt_c_frac xs m ! i = (if length xs = 1 then xs ! 0 else 1)"
  by (simp add: pad_rt_c_frac_def Let_def nth_append)

subsection \<open>The early return of the cooling file\<close>

lemma log10_10000: "log 10 (10000::real) = 4"
proof -
  have "log 10 ((10::real) ^ 4) = real 4" by (rule log_pow_cancel) simp_all
  then show ?thesis by simp
qed

lemma cool_arr_step_later:
  "i \<noteq> 0 \<Longrightarrow> cool_arr_step n1 n2 i tname unit var tvals \<noteq> Inr None"
  by (simp add: cool_arr_step_def Let_def split: sum.split)

lemma cool_arr_loop_later:
  "i \<noteq> 0 \<Longrightarrow> cool_arr_loop n1 n2 i arrs fd tvals \<noteq> Inr None"
proof (induction arrs arbitrary: i fd tvals)
  case Nil
  then show ?case by simp
next
  case (Cons a arrs)
  obtain tname unit where a: "a = (tname, unit)" by (cases a)
  show ?case
    using Cons.prems Cons.IH [of "Suc i"] cool_arr_step_later [of i n1 n2 tname unit]
    by (auto simp: a split: sum.splits option.splits prod.splits)
qed

lemma read_vector_d_Inr:
  "read_vector_d fd = Inr (v, fd') \<longleftrightarrow> fd = DVec v # fd'"
  by (auto simp: read_vector_d_def split: list.splits fvec.splits)

lemma read_vector_i_Inr:
  "read_vector_i fd = Inr (v, fd') \<longleftrightarrow> fd = IVec v # fd'"
  by (auto simp: read_vector_i_def split: list.splits fvec.splits)

lemma read_axes_cool_axes:
  "read_axes cool_axes fd [] = Inr (avals, fd') \<Longrightarrow>
     \<exists>a b. fd = DVec a # DVec b # fd' \<and> avals = [(''lognH'', a), (''logT'', b)]"
  by (auto simp: cool_axes_def read_vector_d_Inr split: sum.splits prod.splits)

lemma load_cooling_file_legacy_only_first:
  assumes "load_cooling_file fd = Inr None"
  shows "\<exists>n1 n2 a b var rest.
           fd = IVec [n1, n2] # DVec a # DVec b # DVec var # rest \<and> int (length var) = n1"
proof -
  from assms obtain header fd1 where h: "read_vector_i fd = Inr (header, fd1)"
    by (auto simp: load_cooling_file_def split: sum.splits prod.splits)
  from assms h obtain n1 n2 where hd: "header = [n1, n2]"
    by (auto simp: load_cooling_file_def split: list.splits)
  from assms h hd obtain avals fd2 where ax: "read_axes cool_axes fd1 [] = Inr (avals, fd2)"
    by (auto simp: load_cooling_file_def split: sum.splits prod.splits)
  from assms h hd ax have loop: "cool_arr_loop n1 n2 0 cool_arrs fd2 [] = Inr None"
    by (auto simp: load_cooling_file_def split: sum.splits option.splits prod.splits)
  obtain tname unit arrs where arrs: "cool_arrs = (tname, unit) # arrs"
    by (simp add: cool_arrs_def)
  from loop obtain var fd3 where rv: "read_vector_d fd2 = Inr (var, fd3)"
    by (auto simp: arrs split: sum.splits prod.splits)
  have "cool_arr_step n1 n2 0 tname unit var [] = Inr None"
    using loop rv cool_arr_loop_later [of "Suc 0" n1 n2 arrs fd3]
    by (auto simp: arrs split: sum.splits option.splits)
  then have "int (length var) = n1"
    by (auto simp: cool_arr_step_def Let_def split: if_splits sum.splits)
  moreover from read_axes_cool_axes [OF ax] obtain a b where "fd1 = DVec a # DVec b # fd2" by blast
  ultimately show ?thesis
    using h hd rv by (auto simp: read_vector_i_Inr read_vector_d_Inr)
qed

lemma load_cooling_file_legacy:
  assumes "int (length var) = n1"
  shows "load_cooling_file (IVec [n1, n2] # DVec a # DVec b # DVec var # rest) = Inr None"
  using assms
  by (simp add: load_cooling_file_def read_vector_i_def read_vector_d_def cool_axes_def
        cool_arrs_def cool_arr_step_def)

subsection \<open>The fields made from the tables\<close>

lemma dict_set_entries: "e \<in> set (dict_set d k v) \<Longrightarrow> e \<in> set d \<or> e = (k, v)"
  by (induction d) (auto split: if_splits)

lemma species_loop_entries:
  "species_loop n1 n2 var idx tv = Inr tv' \<Longrightarrow> e \<in> set tv' \<Longrightarrow>
     e \<in> set tv \<or> (fst e \<in> set cool_species \<and> snd (snd e) = Some ''1/cm**3'')"
proof (induction idx arbitrary: tv)
  case Nil
  then show ?case by simp
next
  case (Cons i idx)
  from Cons.prems(1) obtain sp where sp: "py_index cool_species i = Inr sp"
    and rest: "species_loop n1 n2 var idx
                 (dict_set tv sp (reshape_F n1 n2 var (n1 * n2 * i), Some ''1/cm**3'')) = Inr tv'"
    by (auto split: sum.splits)
  from sp have "sp \<in> set cool_species"
    by (auto simp: py_index_def split: if_splits)
  with Cons.IH [OF rest Cons.prems(2)] show ?case
    by (auto dest!: dict_set_entries)
qed

lemma cool_arr_step_entries:
  "cool_arr_step n1 n2 i tname unit var tv = Inr (Some tv') \<Longrightarrow> e \<in> set tv' \<Longrightarrow>
     e \<in> set tv \<or> (fst e = tname \<and> snd (snd e) = unit)
     \<or> (fst e \<in> set cool_species \<and> snd (snd e) = Some ''1/cm**3'')"
  by (auto simp: cool_arr_step_def Let_def split: if_splits sum.splits
           dest!: dict_set_entries dest: species_loop_entries)

lemma cool_arr_loop_entries:
  "cool_arr_loop n1 n2 i arrs fd tv = Inr (Some tv') \<Longrightarrow> e \<in> set tv' \<Longrightarrow>
     e \<in> set tv \<or> (fst e, snd (snd e)) \<in> set arrs
     \<or> (fst e \<in> set cool_species \<and> snd (snd e) = Some ''1/cm**3'')"
proof (induction arrs arbitrary: i fd tv)
  case Nil
  then show ?case by simp
next
  case (Cons a arrs)
  obtain tname unit where a: "a = (tname, unit)" by (cases a)
  from Cons.prems(1) obtain var fd' tv1 where
    step: "cool_arr_step n1 n2 i tname unit var tv = Inr (Some tv1)"
    and rest: "cool_arr_loop n1 n2 (Suc i) arrs fd' tv1 = Inr (Some tv')"
    by (auto simp: a split: sum.splits option.splits prod.splits)
  from Cons.IH [OF rest Cons.prems(2)] cool_arr_step_entries [OF step, of e]
  show ?case by (auto simp: a)
qed

lemma load_cooling_file_entries:
  assumes "load_cooling_file fd = Inr (Some (avals, tvals))" and "(key, tab, unit) \<in> set tvals"
  shows "(key, unit) \<in> set created_cooling_fields"
proof -
  from assms(1) obtain n1 n2 fd2 where "cool_arr_loop n1 n2 0 cool_arrs fd2 [] = Inr (Some tvals)"
    by (auto simp: load_cooling_file_def split: sum.splits option.splits prod.splits list.splits)
  from cool_arr_loop_entries [OF this assms(2)] show ?thesis
    by (auto simp: created_cooling_fields_def)
qed

lemma registry_add_table_fields_cases:
  "registry (add_table_fields a b tv st) k = Some fi \<Longrightarrow>
     registry st k = Some fi \<or>
     (\<exists>key tab u. (key, tab, u) \<in> set tv \<and> k = (''gas'', key) \<and>
        field_function fi =
          Cool_func (''gas'', key) (BilinearFieldInterpolator tab (a, b) [''lognH'', ''logT''] True) u)"
proof (induction tv arbitrary: st)
  case Nil
  then show ?case by simp
next
  case (Cons e tv)
  obtain key tab u where e: "e = (key, tab, u)" by (cases e)
  from Cons.IH [OF Cons.prems [unfolded e add_table_fields.simps]]
  show ?case
    by (auto simp: e create_field_def registry_add_field split: if_splits)
qed

lemma create_cooling_fields_cool_funcs:
  assumes reg: "registry (fst (create_cooling_fields ext dset st)) k = Some fi"
    and cf: "field_function fi = Cool_func name it unit"
    and new: "registry st k \<noteq> Some fi"
  shows "k = name \<and> fst name = ''gas'' \<and> (snd name, unit) \<in> set created_cooling_fields"
proof -
  have unchanged: "registry (fst (create_cooling_fields ext dset st)) k = registry st k"
    if "\<not> (\<exists>filename fd avals tvals. files ext filename = Some fd \<and>
              load_cooling_file fd = Inr (Some (avals, tvals)) \<and>
              snd (create_cooling_fields ext dset st) = Inr True)"
    using that
    by (auto simp: create_cooling_fields_def mylog_warning_def Let_def
             split: sum.splits option.splits prod.splits)
  with reg new obtain filename fd avals tvals where
    fn: "cooling_filename ext dset = Inr filename" and f: "files ext filename = Some fd"
    and l: "load_cooling_file fd = Inr (Some (avals, tvals))"
    and t: "snd (create_cooling_fields ext dset st) = Inr True"
    by (auto simp: create_cooling_fields_def mylog_warning_def Let_def
             split: sum.splits option.splits prod.splits)
  from t fn f l obtain mu lognH logT where
    mu: "dict_get tvals ''mu'' = Inr mu" and a: "dict_get avals ''lognH'' = Inr lognH"
    and b: "dict_get avals ''logT'' = Inr logT"
    by (auto simp: create_cooling_fields_def Let_def split: sum.splits)
  define st1 where "st1 = create_field (''gas'', ''mu'')
        (BilinearFieldInterpolator (fst mu) (lognH, logT) [''lognH'', ''logT''] True)
        (Some ''dimensionless'') st"
  define st2 where "st2 = add_field (''gas'', ''number_density'') ''cell'' Number_density
                                                (Unit_string number_density_unit) st1"
  define st3 where "st3 = add_table_fields lognH logT tvals st2"
  have r: "registry (fst (create_cooling_fields ext dset st)) k =
           (if k = (''gas'', ''cooling_net'') then Some \<lparr>sampling_type = ''cell'', field_function = Net_cool,
                 units = Unit_string cooling_function_units\<rparr>
            else if k = (''gas'', ''heating_total'') then Some \<lparr>sampling_type = ''cell'', field_function = All_heat,
                 units = Unit_string cooling_function_units\<rparr>
            else if k = (''gas'', ''cooling_total'') then Some \<lparr>sampling_type = ''cell'', field_function = All_cool,
                 units = Unit_string cooling_function_units\<rparr>
            else registry st3 k)"
    using fn f l mu a b
    by (simp add: create_cooling_fields_def Let_def registry_add_field st1_def st2_def st3_def)
  from reg cf have 3: "registry st3 k = Some fi"
    by (auto simp: r split: if_splits)
  from registry_add_table_fields_cases [OF 3 [unfolded st3_def]]
  consider "registry st2 k = Some fi"
    | key tab u where "(key, tab, u) \<in> set tvals" "k = (''gas'', key)"
        "field_function fi =
          Cool_func (''gas'', key) (BilinearFieldInterpolator tab (lognH, logT) [''lognH'', ''logT''] True) u"
    by blast
  then show ?thesis
  proof cases
    case 1
    then have "k = (''gas'', ''mu'') \<and> name = (''gas'', ''mu'') \<and> unit = Some ''dimensionless''"
      using cf new
      by (auto simp: st2_def st1_def create_field_def registry_add_field split: if_splits)
    then show ?thesis by (simp add: created_cooling_fields_def)
  next
    case 2
    with cf load_cooling_file_entries [OF l 2(1)] show ?thesis by auto
  qed
qed

lemma created_cooling_fields_compton:
  assumes "(key, unit) \<in> set created_cooling_fields"
    and "''compton'' \<in> set (split_on (CHR ''_'') key)"
  shows "''metal'' \<notin> set (split_on (CHR ''_'') key) \<and> unit \<noteq> None"
  using assms
  by (auto simp: created_cooling_fields_def cool_arrs_def cool_species_def)

subsection \<open>The example table\<close>

lemma example_interp_0_4:
  "interp_call example_mu_interpolator [(''lognH'', [0]), (''logT'', [4])] = Inr [1]"
  by code_simp

lemma example_scaling_query:
  "cool_query (example_ext None) (example_data False example_scaling_values) =
     Inr [(''lognH'', [0]), (''logT'', [4])]"
  by (simp add: cool_query_def getitem_def example_data_def example_scaling_values_def
        np_binop_def Y_He_def example_ext_def example_ds_def log10_10000)

lemma example_scaling_rv:
  "key \<noteq> ''mu'' \<Longrightarrow>
     cool_rv (example_ext None) (''gas'', key) example_mu_interpolator
       (example_data False example_scaling_values) = Inr [10]"
  by (simp add: cool_rv_def example_scaling_query example_interp_0_4)

lemma log10_100: "log 10 (100::real) = 2"
proof -
  have "log 10 ((10::real) ^ 2) = real 2" by (rule log_pow_cancel) simp_all
  then show ?thesis by simp
qed

lemma registry_add_table_fields_mu:
  "registry (add_table_fields a b tv st) (''gas'', ''mu'') = registry st (''gas'', ''mu'')"
  by (induction tv arbitrary: st) (auto simp: create_field_def registry_add_field)

lemma create_cooling_fields_registers_mu:
  assumes "cooling_filename ext dset = Inr filename"
    and "files ext filename = Some fd"
    and "load_cooling_file fd = Inr (Some (avals, tvals))"
    and "map_of tvals ''mu'' = Some (tab, u)"
    and "map_of avals ''lognH'' = Some a" and "map_of avals ''logT'' = Some b"
  shows "registry (fst (create_cooling_fields ext dset st)) (''gas'', ''mu'') =
           Some \<lparr>sampling_type = ''cell'',
                 field_function = Cool_func (''gas'', ''mu'')
                   (BilinearFieldInterpolator tab (a, b) [''lognH'', ''logT''] True)
                   (Some ''dimensionless''),
                 units = Unit_string ''dimensionless''\<rparr>"
  using assms
  by (simp add: create_cooling_fields_def dict_get_def Let_def registry_add_field
        registry_add_table_fields_mu create_field_def)

lemma example_interp_2_4:
  "interp_call example_mu_interpolator [(''lognH'', [2]), (''logT'', [4])] = Inr [12 / 10]"
  by code_simp

lemma example_interp_1_4:
  "interp_call example_mu_interpolator [(''lognH'', [1]), (''logT'', [4])] = Inr [12 / 10]"
  by code_simp


section \<open>The claims\<close>

subsection \<open>C1: the cooling file does not exist\<close>

text \<open>
  Claim C1, as stated, promises one RuntimeWarning for the first evaluation of the fallback
  temperature whatever the data context. The first fact below shows that this fails: with
  no cooling file, \<^verbatim>\<open>create_cooling_fields\<close> returns False, the fallback is registered,
  and its evaluation on a FieldDetector returns \<^verbatim>\<open>temperature_over_mu\<close> with no warning
  at all.
\<close>

theorem missing_cooling_file_warning_counterexample:
  "snd (create_cooling_fields (example_ext None) example_ds (example_state [])) = Inr False
   \<and> map_option field_function
        (registry (fst (setup_fluid_fields (example_ext None) example_ds (example_state [])))
           (''gas'', ''temperature'')) = Some Temperature_fallback
   \<and> call_field (example_ext None) Temperature_fallback
        (example_data True example_temperature_values) = ([], Inr [100, 200])
   \<and> length (fst (call_field (example_ext None) Temperature_fallback
        (example_data True example_temperature_values))) \<noteq> 1"
  by (simp add: example_create_cooling_fields_absent
        setup_fluid_fields_temperature [where found = False and st' = "example_state []"]
        temperature_fallback_def example_data_def example_temperature_values_def getitem_def)

text \<open>
  Claim C1, amended. When the cooling file of the dataset (the name computed from the
  basename) does not exist, \<^verbatim>\<open>create_cooling_fields\<close> logs a warning and returns False
  without raising, \<^verbatim>\<open>("gas", "temperature")\<close> is registered with the fallback function,
  every evaluation of it returns exactly what \<^verbatim>\<open>data["gas", "temperature_over_mu"]\<close>
  returns, and an evaluation on a data context that is not a FieldDetector issues the
  RuntimeWarning exactly once.
\<close>

theorem missing_cooling_file_fallback_temperature:
  assumes "cooling_filename ext dset = Inr filename" and "files ext filename = None"
  shows "create_cooling_fields ext dset st =
           (mylog_warning ''This output has no cooling fields'' st, Inr False)
       \<and> registry (fst (setup_fluid_fields ext dset st0)) (''gas'', ''temperature'') =
           Some \<lparr>sampling_type = ''cell'', field_function = Temperature_fallback,
                 units = Unit_system ''temperature''\<rparr>
       \<and> (\<forall>data. snd (call_field ext Temperature_fallback data) =
                   getitem data (''gas'', ''temperature_over_mu''))
       \<and> (\<forall>data. \<not> is_field_detector data \<longrightarrow>
                   fst (call_field ext Temperature_fallback data) = [temperature_warning])"
proof -
  have c: "create_cooling_fields ext dset s =
           (mylog_warning ''This output has no cooling fields'' s, Inr False)" for s
    using assms by (simp add: create_cooling_fields_def)
  have "snd (create_cooling_fields ext dset st) = Inr False" by (simp add: c)
  from setup_fluid_fields_temperature [OF this, of st0] c [of st]
  show ?thesis by (simp add: temperature_fallback_def)
qed

theorem missing_cooling_file_fallback_temperature_witness:
  "create_cooling_fields (example_ext None) example_ds (example_state []) =
     (mylog_warning ''This output has no cooling fields'' (example_state []), Inr False)
   \<and> registry (fst (setup_fluid_fields (example_ext None) example_ds (example_state [])))
        (''gas'', ''temperature'') =
       Some \<lparr>sampling_type = ''cell'', field_function = Temperature_fallback,
             units = Unit_system ''temperature''\<rparr>
   \<and> call_field (example_ext None) Temperature_fallback
        (example_data False example_temperature_values) = ([temperature_warning], Inr [100, 200])"
proof -
  have f: "files (example_ext None) ''output_00080/cooling_00080.out'' = None"
    by (simp add: example_ext_def)
  note T = missing_cooling_file_fallback_temperature
             [OF example_cooling_filename f, of "example_state []" "example_state []"]
  have nd: "\<not> is_field_detector (example_data False example_temperature_values)"
    by (simp add: example_data_def)
  have "fst (call_field (example_ext None) Temperature_fallback
          (example_data False example_temperature_values)) = [temperature_warning]"
    using T nd by blast
  moreover have "snd (call_field (example_ext None) Temperature_fallback
          (example_data False example_temperature_values)) = Inr [100, 200]"
    using T by (simp add: example_data_def example_temperature_values_def getitem_def)
  ultimately have "call_field (example_ext None) Temperature_fallback
        (example_data False example_temperature_values) = ([temperature_warning], Inr [100, 200])"
    by (simp add: prod_eq_iff)
  with T show ?thesis by blast
qed

subsection \<open>C2: the cooling fields are found\<close>

text \<open>
  Claim C2. When \<^verbatim>\<open>create_cooling_fields\<close> returns True, \<^verbatim>\<open>("gas", "temperature")\<close> is
  registered with the function that, for every data context, multiplies
  \<^verbatim>\<open>data["gas", "temperature_over_mu"]\<close> by \<^verbatim>\<open>data["gas", "mu"]\<close>: the numpy product of
  the two arrays, which for arrays of one length is the product cell by cell.
\<close>

theorem found_cooling_fields_temperature_is_product:
  assumes "snd (create_cooling_fields ext dset st') = Inr True"
  shows "registry (fst (setup_fluid_fields ext dset st0)) (''gas'', ''temperature'') =
           Some \<lparr>sampling_type = ''cell'', field_function = Temperature_with_mu,
                 units = Unit_system ''temperature''\<rparr>
       \<and> (\<forall>data. call_field ext Temperature_with_mu data =
             ([], bindE (getitem data (''gas'', ''temperature_over_mu'')) (\<lambda>t.
                  bindE (getitem data (''gas'', ''mu'')) (\<lambda>m. np_binop (*) t m))))
       \<and> (\<forall>data t m.
             getitem data (''gas'', ''temperature_over_mu'') = Inr t \<and>
             getitem data (''gas'', ''mu'') = Inr m \<and> length t = length m \<longrightarrow>
             call_field ext Temperature_with_mu data = ([], Inr (map2 (*) t m)))"
  using setup_fluid_fields_temperature [OF assms, of st0]
  by (simp add: temperature_with_mu_def np_binop_same_length)

theorem found_cooling_fields_temperature_is_product_witness:
  "snd (create_cooling_fields (example_ext (Some example_cooling_file)) example_ds (example_state []))
     = Inr True
   \<and> registry (fst (setup_fluid_fields (example_ext (Some example_cooling_file)) example_ds
                    (example_state []))) (''gas'', ''temperature'') =
       Some \<lparr>sampling_type = ''cell'', field_function = Temperature_with_mu,
             units = Unit_system ''temperature''\<rparr>
   \<and> call_field (example_ext (Some example_cooling_file)) Temperature_with_mu
        (example_data False example_temperature_values) = ([], Inr [100 * (1 / 2), 200 * 2])"
proof -
  note T = found_cooling_fields_temperature_is_product
             [OF example_create_cooling_fields_found [of "example_state []"], of "example_state []"]
  have "call_field (example_ext (Some example_cooling_file)) Temperature_with_mu
        (example_data False example_temperature_values) = ([], Inr (map2 (*) [100, 200] [1 / 2, 2]))"
    using T [THEN conjunct2, THEN conjunct2, rule_format,
             where data = "example_data False example_temperature_values"
               and t = "[100, 200]" and m = "[1 / 2, 2]"]
    by (simp add: example_data_def example_temperature_values_def getitem_def)
  with T example_create_cooling_fields_found [of "example_state []"] show ?thesis by simp
qed

subsection \<open>C3: the three stellar ages\<close>

text \<open>
  Claim C3. \<^verbatim>\<open>setup_particle_fields\<close> registers \<^verbatim>\<open>(ptype, "star_age")\<close>, in the time unit
  of the unit system, with exactly one of three functions chosen by the two flags of the
  dataset: the conformal one (the conformal birth time converted to physical time and
  subtracted from the current time) when \<^verbatim>\<open>cosmological_simulation\<close> and
  \<^verbatim>\<open>use_conformal_time\<close> both hold, the physical one (the closed form in the Hubble
  constant and \<^verbatim>\<open>t_frw\<close>) when only \<^verbatim>\<open>cosmological_simulation\<close> holds, and otherwise
  the plain one, \<open>current_time - particle_birth_time\<close>. The instance that follows the
  theorem evaluates the plain one on current time 10 and birth time 3, which gives 7.
\<close>

theorem star_age_selection:
  "(cosmological_simulation dset \<and> use_conformal_time dset \<longrightarrow>
      registry (setup_particle_fields dset ptype st) (ptype, ''star_age'') =
        Some \<lparr>sampling_type = ''particle'', field_function = Star_age_from_conformal_cosmo ptype,
              units = Unit_system ''time''\<rparr>)
   \<and> (cosmological_simulation dset \<and> \<not> use_conformal_time dset \<longrightarrow>
      registry (setup_particle_fields dset ptype st) (ptype, ''star_age'') =
        Some \<lparr>sampling_type = ''particle'', field_function = Star_age_from_physical_cosmo ptype,
              units = Unit_system ''time''\<rparr>)
   \<and> (\<not> cosmological_simulation dset \<longrightarrow>
      registry (setup_particle_fields dset ptype st) (ptype, ''star_age'') =
        Some \<lparr>sampling_type = ''particle'', field_function = Star_age ptype,
              units = Unit_system ''time''\<rparr>)
   \<and> (\<forall>data conformal_age.
         getitem data (ptype, ''conformal_birth_time'') = Inr conformal_age \<longrightarrow>
         call_field ext (Star_age_from_conformal_cosmo ptype) data =
           ([], Inr (map (\<lambda>b. current_time (ds data) - b)
                      (convert_ramses_conformal_time_to_physical_time ext (ds data) conformal_age))))
   \<and> (\<forall>data times.
         getitem data (ptype, ''conformal_birth_time'') = Inr times \<longrightarrow>
         call_field ext (Star_age_from_physical_cosmo ptype) data =
           ([], Inr (map (\<lambda>t. time_to_Gyr ext (current_time (ds data))
                               - (t_frw ext (ds data) 0
                                    * km_s_Mpc_to_per_Gyr ext (hubble_constant (ds data) * 100) + t)
                                  / km_s_Mpc_to_per_Gyr ext (hubble_constant (ds data) * 100))
                      times)))
   \<and> (\<forall>data formation_time.
         getitem data (ptype, ''particle_birth_time'') = Inr formation_time \<longrightarrow>
         call_field ext (Star_age ptype) data =
           ([], Inr (map (\<lambda>f. current_time (ds data) - f) formation_time)))"
  by (simp add: setup_particle_fields_def registry_add_field star_age_def
        star_age_from_conformal_cosmo_def star_age_from_physical_cosmo_def Let_def)

theorem star_age_selection_witness:
  "registry (setup_particle_fields example_ds ''io'' (example_state [])) (''io'', ''star_age'') =
     Some \<lparr>sampling_type = ''particle'', field_function = Star_age ''io'',
           units = Unit_system ''time''\<rparr>
   \<and> current_time example_ds = 10
   \<and> getitem (example_data False example_star_values) (''io'', ''particle_birth_time'') = Inr [3]
   \<and> call_field (example_ext None) (Star_age ''io'') (example_data False example_star_values)
       = ([], Inr [7])
   \<and> registry (setup_particle_fields (example_ds\<lparr>cosmological_simulation := True\<rparr>) ''io''
                 (example_state [])) (''io'', ''star_age'') =
       Some \<lparr>sampling_type = ''particle'', field_function = Star_age_from_physical_cosmo ''io'',
             units = Unit_system ''time''\<rparr>
   \<and> call_field (example_ext None) (Star_age_from_physical_cosmo ''io'')
        (example_data False example_star_values) = ([], Inr [10 - (1 * 100 + 3) / 100])
   \<and> registry (setup_particle_fields
                 (example_ds\<lparr>cosmological_simulation := True, use_conformal_time := True\<rparr>) ''io''
                 (example_state [])) (''io'', ''star_age'') =
       Some \<lparr>sampling_type = ''particle'', field_function = Star_age_from_conformal_cosmo ''io'',
             units = Unit_system ''time''\<rparr>
   \<and> call_field (example_ext None) (Star_age_from_conformal_cosmo ''io'')
        (example_data False example_star_values) = ([], Inr [10 - 3])"
proof -
  let ?D = "example_data False example_star_values" and ?E = "example_ext None"
  have g1: "getitem ?D (''io'', ''particle_birth_time'') = Inr [3]"
    and g2: "getitem ?D (''io'', ''conformal_birth_time'') = Inr [3]"
    by (simp_all add: getitem_def example_data_def example_star_values_def)
  have ct: "current_time (ds ?D) = 10" "current_time example_ds = 10"
    "hubble_constant (ds ?D) = 1"
    by (simp_all add: example_data_def example_ds_def)
  note T1 = star_age_selection [of example_ds "''io''" "example_state []" ?E]
  note T2 = star_age_selection [of "example_ds\<lparr>cosmological_simulation := True\<rparr>" "''io''"
              "example_state []" ?E]
  note T3 = star_age_selection
              [of "example_ds\<lparr>cosmological_simulation := True, use_conformal_time := True\<rparr>"
                  "''io''" "example_state []" ?E]
  have r1: "registry (setup_particle_fields example_ds ''io'' (example_state [])) (''io'', ''star_age'')
      = Some \<lparr>sampling_type = ''particle'', field_function = Star_age ''io'',
           units = Unit_system ''time''\<rparr>"
    using T1 by (simp add: example_ds_def)
  have r2: "registry (setup_particle_fields (example_ds\<lparr>cosmological_simulation := True\<rparr>) ''io''
                 (example_state [])) (''io'', ''star_age'') =
       Some \<lparr>sampling_type = ''particle'', field_function = Star_age_from_physical_cosmo ''io'',
             units = Unit_system ''time''\<rparr>"
    using T2 by (simp add: example_ds_def)
  have r3: "registry (setup_particle_fields
                 (example_ds\<lparr>cosmological_simulation := True, use_conformal_time := True\<rparr>) ''io''
                 (example_state [])) (''io'', ''star_age'') =
       Some \<lparr>sampling_type = ''particle'', field_function = Star_age_from_conformal_cosmo ''io'',
             units = Unit_system ''time''\<rparr>"
    using T3 by (simp add: example_ds_def)
  have c1: "call_field ?E (Star_age ''io'') ?D = ([], Inr [7])"
    using T1 g1 ct by simp
  have c2: "call_field ?E (Star_age_from_physical_cosmo ''io'') ?D = ([], Inr [10 - (1 * 100 + 3) / 100])"
    using T1 g2 ct by (simp add: example_ext_def)
  have c3: "call_field ?E (Star_age_from_conformal_cosmo ''io'') ?D = ([], Inr [10 - 3])"
    using T1 g2 ct by (simp add: example_ext_def)
  from r1 r2 r3 c1 c2 c3 g1 ct show ?thesis by simp
qed

subsection \<open>C4: cell-centred magnetic field and its divergence\<close>

text \<open>
  Claim C4. When the left and right face magnetic fields are present (the key
  \<^verbatim>\<open>("gas", "magnetic_field_x_left")\<close> is in the registry) and \<^verbatim>\<open>setup_fluid_fields\<close>
  returns, then for every axis \<open>ax\<close> of the dataset the field
  \<^verbatim>\<open>("gas", "magnetic_field_<ax>")\<close> is registered with the function that returns
  \<open>(left + right) / 2\<close> cell by cell, and \<^verbatim>\<open>("gas", "magnetic_field_divergence")\<close> with
  the function that returns, cell by cell, the sum over the axes of the data context of
  \<open>right - left\<close>, divided by \<open>dx\<close>. The axis names of the coordinate systems do not
  include the word \<^verbatim>\<open>divergence\<close>, whose centred field would share the key of the
  divergence. The instance that follows the theorem evaluates both on left = 1, right = 3
  along x: the centred value is 2 and the divergence is (3 - 1) / dx.
\<close>

theorem magnetic_fields_centered_and_divergence:
  assumes ret: "setup_fluid_fields ext dset st0 = (st, None)"
    and present: "contains st0 (''gas'', ''magnetic_field_x_left'')"
    and ax: "ax \<in> set (axis_order dset)" "ax \<noteq> ''divergence''"
  shows "registry st (''gas'', ''magnetic_field_'' @ ax) =
           Some \<lparr>sampling_type = ''cell'', field_function = Mag_field ax,
                 units = Unit_system ''magnetic_field_cgs''\<rparr>
       \<and> registry st (''gas'', ''magnetic_field_divergence'') =
           Some \<lparr>sampling_type = ''cell'', field_function = DivB,
                 units = Unit_quot (Unit_system ''magnetic_field_cgs'') (Unit_system ''length'')\<rparr>
       \<and> (\<forall>data l r.
             getitem data (''gas'', ''magnetic_field_'' @ ax @ ''_left'') = Inr l \<and>
             getitem data (''gas'', ''magnetic_field_'' @ ax @ ''_right'') = Inr r \<and>
             length l = length r \<longrightarrow>
             call_field ext (Mag_field ax) data = ([], Inr (map2 (\<lambda>a b. (a + b) / 2) l r)))
       \<and> (\<forall>data L R z dx n.
             (\<forall>a \<in> set (axis_order (ds data)).
                getitem data (''gas'', ''magnetic_field_'' @ a @ ''_right'') = Inr (R a) \<and>
                getitem data (''gas'', ''magnetic_field_'' @ a @ ''_left'') = Inr (L a) \<and>
                length (R a) = n \<and> length (L a) = n) \<and>
             getitem data (''gas'', ''magnetic_field_x_right'') = Inr z \<and> length z = n \<and>
             getitem data (''gas'', ''dx'') = Inr dx \<and> length dx = n \<longrightarrow>
             call_field ext DivB data =
               ([], Inr (map (\<lambda>i. (\<Sum>a\<leftarrow>axis_order (ds data). R a ! i - L a ! i) / dx ! i) [0..<n])))"
proof -
  from setup_fluid_fields_returns [OF ret] obtain st1 where
    mono: "\<forall>k. contains st0 k \<longrightarrow> contains st1 k"
    and st: "st = (let st2 = (if contains st1 (''gas'', ''magnetic_field_x_left'')
                         then create_magnetic_fields dset st1 else st1)
                 in if contains st2 (''gravity'', ''Potential'')
                    then create_gravity_fields st2 else st2)"
    by blast
  from mono present have guard: "contains st1 (''gas'', ''magnetic_field_x_left'')" by blast
  have grav: "registry st k = registry (create_magnetic_fields dset st1) k"
    if "k \<noteq> (''gas'', ''potential_energy'')" for k
    using that unfolding st Let_def
    by (simp add: guard create_gravity_fields_def registry_add_field)
  have c: "registry st (''gas'', ''magnetic_field_'' @ ax) =
           Some \<lparr>sampling_type = ''cell'', field_function = Mag_field ax,
                 units = Unit_system ''magnetic_field_cgs''\<rparr>"
    using ax
    by (simp add: grav create_magnetic_fields_def registry_add_field
          add_mag_fields_registry [simplified])
  have d: "registry st (''gas'', ''magnetic_field_divergence'') =
           Some \<lparr>sampling_type = ''cell'', field_function = DivB,
                 units = Unit_quot (Unit_system ''magnetic_field_cgs'') (Unit_system ''length'')\<rparr>"
    by (simp add: grav create_magnetic_fields_def registry_add_field)
  show ?thesis
    using c d by (auto simp: mag_field_value divB_value)
qed

theorem magnetic_fields_centered_and_divergence_witness:
  "registry (fst (setup_fluid_fields (example_ext None) example_ds (example_state example_mag_known)))
       (''gas'', ''magnetic_field_x'') =
     Some \<lparr>sampling_type = ''cell'', field_function = Mag_field ''x'',
           units = Unit_system ''magnetic_field_cgs''\<rparr>
   \<and> call_field (example_ext None) (Mag_field ''x'') (example_data False example_mag_values) =
       ([], Inr [2])
   \<and> call_field (example_ext None) DivB (example_data False example_mag_values) =
       ([], Inr [(3 - 1) / (1 / 2)])"
proof -
  let ?E = "example_ext None" and ?S = "example_state example_mag_known"
  let ?D = "example_data False example_mag_values"
  let ?R = "\<lambda>a. if a = ''x'' then [3::real] else [0]" and ?L = "\<lambda>a. if a = ''x'' then [1::real] else [0]"
  have ret: "setup_fluid_fields ?E example_ds ?S = (fst (setup_fluid_fields ?E example_ds ?S), None)"
    by (simp add: prod_eq_iff example_setup_no_error)
  have present: "contains ?S (''gas'', ''magnetic_field_x_left'')"
    by (simp add: contains_def example_state_def example_mag_known_def)
  have ax: "''x'' \<in> set (axis_order example_ds)" "''x'' \<noteq> ''divergence''"
    by (simp_all add: example_ds_def)
  note T = magnetic_fields_centered_and_divergence [OF ret present ax]
  have reg: "registry (fst (setup_fluid_fields ?E example_ds ?S)) (''gas'', ''magnetic_field_x'') =
     Some \<lparr>sampling_type = ''cell'', field_function = Mag_field ''x'',
           units = Unit_system ''magnetic_field_cgs''\<rparr>"
    using T [THEN conjunct1] by simp
  have "call_field ?E (Mag_field ''x'') ?D = ([], Inr (map2 (\<lambda>a b. (a + b) / 2) [1] [3]))"
    using T [THEN conjunct2, THEN conjunct2, THEN conjunct1, rule_format,
             where data = ?D and l = "[1]" and r = "[3]"]
    by (simp add: getitem_def example_data_def example_mag_values_def)
  then have centred: "call_field ?E (Mag_field ''x'') ?D = ([], Inr [2])" by simp
  have "call_field ?E DivB ?D =
      ([], Inr (map (\<lambda>i. (\<Sum>a\<leftarrow>axis_order (ds ?D). ?R a ! i - ?L a ! i) / [1 / 2] ! i) [0..<1]))"
    using T [THEN conjunct2, THEN conjunct2, THEN conjunct2, rule_format,
             where data = ?D and R = ?R and L = ?L and z = "[3]" and dx = "[1 / 2]" and n = 1]
    by (simp add: getitem_def example_data_def example_mag_values_def example_ds_def)
  then have div: "call_field ?E DivB ?D = ([], Inr [(3 - 1) / (1 / 2)])"
    by (simp add: example_data_def example_ds_def)
  from reg centred div show ?thesis by simp
qed

subsection \<open>C5: the legacy format of the cooling file\<close>

text \<open>
  Claim C5. When the header and the two axes of the cooling file are read and the first
  value array has \<open>n1\<close> entries, \<^verbatim>\<open>create_cooling_fields\<close> logs a warning and returns
  False without raising; it registers nothing, and \<^verbatim>\<open>setup_fluid_fields\<close> then registers
  the fallback temperature, as it does when the file is absent. The size check is applied
  to the first value array only: the loop body at any later index never takes the early
  return, and a file for which the loading returns early has a first value array of
  \<open>n1\<close> entries.
\<close>

theorem legacy_cooling_file_returns_False:
  assumes fn: "cooling_filename ext dset = Inr filename"
    and content: "files ext filename = Some (IVec [n1, n2] # DVec a # DVec b # DVec var # rest)"
    and legacy: "int (length var) = n1"
  shows "create_cooling_fields ext dset st = (mylog_warning legacy_warning st, Inr False)
       \<and> registry (fst (create_cooling_fields ext dset st)) = registry st
       \<and> registry (fst (setup_fluid_fields ext dset st0)) (''gas'', ''temperature'') =
           Some \<lparr>sampling_type = ''cell'', field_function = Temperature_fallback,
                 units = Unit_system ''temperature''\<rparr>
       \<and> (\<forall>i m1 m2 tname unit v tvals.
             i \<noteq> 0 \<longrightarrow> cool_arr_step m1 m2 i tname unit v tvals \<noteq> Inr None)
       \<and> (\<forall>fd. load_cooling_file fd = Inr None \<longrightarrow>
             (\<exists>m1 m2 a' b' v rest'.
                fd = IVec [m1, m2] # DVec a' # DVec b' # DVec v # rest' \<and> int (length v) = m1))"
proof -
  have c: "create_cooling_fields ext dset s = (mylog_warning legacy_warning s, Inr False)" for s
    using fn content load_cooling_file_legacy [OF legacy]
    by (simp add: create_cooling_fields_def legacy_warning_def)
  have "snd (create_cooling_fields ext dset st) = Inr False" by (simp add: c)
  from setup_fluid_fields_temperature [OF this, of st0]
  show ?thesis
    using c [of st] cool_arr_step_later load_cooling_file_legacy_only_first
    by (simp add: mylog_warning_def)
qed

theorem legacy_cooling_file_returns_False_witness:
  "create_cooling_fields (example_ext (Some example_legacy_file)) example_ds (example_state []) =
     (mylog_warning legacy_warning (example_state []), Inr False)
   \<and> snd (create_cooling_fields (example_ext None) example_ds (example_state [])) = Inr False
   \<and> registry (fst (setup_fluid_fields (example_ext (Some example_legacy_file)) example_ds
                    (example_state []))) (''gas'', ''temperature'') =
       Some \<lparr>sampling_type = ''cell'', field_function = Temperature_fallback,
             units = Unit_system ''temperature''\<rparr>
   \<and> cool_arr_step 2 2 1 ''heating_primordial'' None [0, 0] [] = Inl ValueError"
proof -
  have f: "files (example_ext (Some example_legacy_file)) ''output_00080/cooling_00080.out''
             = Some (IVec [2, 2] # DVec [0, 1] # DVec [4, 5] # DVec [0, 0] # [])"
    by (simp add: example_ext_def example_legacy_file_def)
  have l: "int (length [0::real, 0]) = 2" by simp
  note T = legacy_cooling_file_returns_False
             [OF example_cooling_filename f l, of "example_state []" "example_state []"]
  have s: "cool_arr_step 2 2 1 ''heating_primordial'' None [0, 0] [] = Inl ValueError"
    by (simp add: cool_arr_step_def wrap32_def)
  from T s show ?thesis
    by (simp add: example_create_cooling_fields_absent)
qed

subsection \<open>C6: the scaling of the metal and Compton terms\<close>

text \<open>
  Claim C6. Let \<open>rv\<close> be the value \<^verbatim>\<open>_func\<close> reads from the table (ten to the power of the
  interpolated entry). For every field \<^verbatim>\<open>create_cooling_fields\<close> makes from a table: if
  \<^verbatim>\<open>metal\<close> is a component of its name, the field returns \<open>rv * metallicity / 0.02\<close>; if
  \<^verbatim>\<open>compton\<close> is a component of its name, the field returns \<open>rv\<close> divided by
  \<^verbatim>\<open>("gas", "number_density")\<close>; otherwise it returns \<open>rv\<close>. The last part of the
  statement says that every such field has its name and unit in
  \<open>created_cooling_fields\<close>. The unit labels of the arrays are outside the model.
\<close>

theorem cooling_field_scaling:
  assumes created: "(key, unit) \<in> set created_cooling_fields"
    and rv: "cool_rv ext (''gas'', key) it data = Inr rv"
  shows "(''metal'' \<in> set (split_on (CHR ''_'') key) \<longrightarrow>
           (\<forall>Z. getitem data (''gas'', ''metallicity'') = Inr Z \<and> length Z = length rv \<longrightarrow>
              call_field ext (Cool_func (''gas'', key) it unit) data =
                ([], Inr (map2 (\<lambda>r z. r * z / 0.02) rv Z))))
       \<and> (''compton'' \<in> set (split_on (CHR ''_'') key) \<longrightarrow>
           (\<forall>n. getitem data (''gas'', ''number_density'') = Inr n \<and> length n = length rv \<longrightarrow>
              call_field ext (Cool_func (''gas'', key) it unit) data =
                ([], Inr (map2 (/) rv n))))
       \<and> (''metal'' \<notin> set (split_on (CHR ''_'') key) \<and>
          ''compton'' \<notin> set (split_on (CHR ''_'') key) \<longrightarrow>
            call_field ext (Cool_func (''gas'', key) it unit) data = ([], Inr rv))
       \<and> (\<forall>dset st k fi name' it' unit'.
            registry (fst (create_cooling_fields ext dset st)) k = Some fi \<and>
            field_function fi = Cool_func name' it' unit' \<and> registry st k \<noteq> Some fi \<longrightarrow>
            k = name' \<and> fst name' = ''gas'' \<and> (snd name', unit') \<in> set created_cooling_fields)"
proof -
  have metal: "call_field ext (Cool_func (''gas'', key) it unit) data =
                ([], Inr (map2 (\<lambda>r z. r * z / 0.02) rv Z))"
    if "''metal'' \<in> set (split_on (CHR ''_'') key)"
      and "getitem data (''gas'', ''metallicity'') = Inr Z" and "length Z = length rv" for Z
    using that rv
    by (simp add: cool_func_def np_binop_same_length map_zip_map zip_map1 zip_map2 split_def)
  have compton: "call_field ext (Cool_func (''gas'', key) it unit) data = ([], Inr (map2 (/) rv n))"
    if c: "''compton'' \<in> set (split_on (CHR ''_'') key)"
      and "getitem data (''gas'', ''number_density'') = Inr n" and "length n = length rv" for n
  proof -
    from created_cooling_fields_compton [OF created c] obtain u where
      "''metal'' \<notin> set (split_on (CHR ''_'') key)" "unit = Some u"
      by auto
    with that rv show ?thesis
      by (simp add: cool_func_def np_binop_same_length)
  qed
  have other: "call_field ext (Cool_func (''gas'', key) it unit) data = ([], Inr rv)"
    if "''metal'' \<notin> set (split_on (CHR ''_'') key)" "''compton'' \<notin> set (split_on (CHR ''_'') key)"
    using that rv by (simp add: cool_func_def)
  from metal compton other create_cooling_fields_cool_funcs show ?thesis
    by blast
qed

theorem cooling_field_scaling_witness:
  "call_field (example_ext None)
     (Cool_func (''gas'', ''cooling_metal'') example_mu_interpolator (Some cooling_function_units))
     (example_data False example_scaling_values) = ([], Inr [10 * (1 / 50) / 0.02])
   \<and> call_field (example_ext None)
     (Cool_func (''gas'', ''cooling_compton'') example_mu_interpolator (Some cooling_function_units))
     (example_data False example_scaling_values) = ([], Inr [10 / 2])
   \<and> call_field (example_ext None)
     (Cool_func (''gas'', ''cooling_primordial'') example_mu_interpolator (Some cooling_function_units))
     (example_data False example_scaling_values) = ([], Inr [10])"
proof -
  let ?E = "example_ext None" and ?D = "example_data False example_scaling_values"
  let ?u = "Some cooling_function_units"
  have m: "(''cooling_metal'', ?u) \<in> set created_cooling_fields"
    and c: "(''cooling_compton'', ?u) \<in> set created_cooling_fields"
    and p: "(''cooling_primordial'', ?u) \<in> set created_cooling_fields"
    by (simp_all add: created_cooling_fields_def cool_arrs_def)
  have Z: "getitem ?D (''gas'', ''metallicity'') = Inr [1 / 50]"
    and n: "getitem ?D (''gas'', ''number_density'') = Inr [2]"
    by (simp_all add: getitem_def example_data_def example_scaling_values_def)
  note Tm = cooling_field_scaling [OF m example_scaling_rv, THEN conjunct1, rule_format,
              where Z = "[1 / 50]"]
  note Tc = cooling_field_scaling [OF c example_scaling_rv, THEN conjunct2, THEN conjunct1,
              rule_format, where n = "[2]"]
  note Tp = cooling_field_scaling [OF p example_scaling_rv, THEN conjunct2, THEN conjunct2,
              THEN conjunct1, rule_format]
  have 1: "call_field ?E (Cool_func (''gas'', ''cooling_metal'') example_mu_interpolator ?u) ?D
             = ([], Inr [10 * (1 / 50) / 0.02])"
    using Tm Z by simp
  have 2: "call_field ?E (Cool_func (''gas'', ''cooling_compton'') example_mu_interpolator ?u) ?D
             = ([], Inr [10 / 2])"
    using Tc n by simp
  have 3: "call_field ?E (Cool_func (''gas'', ''cooling_primordial'') example_mu_interpolator ?u) ?D
             = ([], Inr [10])"
    using Tp by simp
  from 1 2 3 show ?thesis by blast
qed

subsection \<open>C7: the lookup of mu\<close>

text \<open>
  Claim C7. The cooling file with \<open>n1 = n2 = 2\<close>, \<open>lognH = [0, 1]\<close>, \<open>logT = [4, 5]\<close>
  and the table \<open>[[1.0, 1.0], [1.2, 1.2]]\<close> of \<^verbatim>\<open>mu\<close> makes \<^verbatim>\<open>create_cooling_fields\<close>
  register \<^verbatim>\<open>("gas", "mu")\<close> with the interpolator of that table, built with truncation.
  Queried at \<open>(lognH, logT) = (0, 4)\<close> the field returns the stored sample 1.0, with no
  power of ten applied; queried at \<open>(2, 4)\<close>, outside the sampled range, it returns 1.2,
  the value at the boundary \<open>lognH = 1\<close>. The interpolator is the one of Section 4.2 of
  the specification.
\<close>

theorem mu_table_lookup_exact_and_clamped:
  "registry (fst (create_cooling_fields (example_ext (Some example_cooling_file)) example_ds st))
       (''gas'', ''mu'') =
     Some \<lparr>sampling_type = ''cell'',
           field_function = Cool_func (''gas'', ''mu'') example_mu_interpolator (Some ''dimensionless''),
           units = Unit_string ''dimensionless''\<rparr>
   \<and> (cool_query ext data = Inr [(''lognH'', [0]), (''logT'', [4])] \<longrightarrow>
        call_field ext (Cool_func (''gas'', ''mu'') example_mu_interpolator (Some ''dimensionless'')) data
          = ([], Inr [1]))
   \<and> (cool_query ext data = Inr [(''lognH'', [2]), (''logT'', [4])] \<longrightarrow>
        call_field ext (Cool_func (''gas'', ''mu'') example_mu_interpolator (Some ''dimensionless'')) data
          = ([], Inr [12 / 10]))
   \<and> interp_call example_mu_interpolator [(''lognH'', [2]), (''logT'', [4])] =
       interp_call example_mu_interpolator [(''lognH'', [1]), (''logT'', [4])]"
proof -
  obtain avals tvals where
    l: "load_cooling_file example_cooling_file = Inr (Some (avals, tvals))"
    and a: "avals = [(''lognH'', [0, 1]), (''logT'', [4, 5])]"
    and m: "map_of tvals ''mu'' = Some ([[1, 1], [12 / 10, 12 / 10]], None)"
    using example_load_mu by (auto split: sum.splits option.splits)
  have f: "files (example_ext (Some example_cooling_file)) ''output_00080/cooling_00080.out''
             = Some example_cooling_file"
    by (simp add: example_ext_def)
  have reg: "registry (fst (create_cooling_fields (example_ext (Some example_cooling_file)) example_ds st))
       (''gas'', ''mu'') =
     Some \<lparr>sampling_type = ''cell'',
           field_function = Cool_func (''gas'', ''mu'') example_mu_interpolator (Some ''dimensionless''),
           units = Unit_string ''dimensionless''\<rparr>"
    unfolding example_mu_interpolator_def
    by (rule create_cooling_fields_registers_mu [OF example_cooling_filename f l m])
       (simp_all add: a)
  have mu: "''metal'' \<notin> set (split_on (CHR ''_'') ''mu'')" "''compton'' \<notin> set (split_on (CHR ''_'') ''mu'')"
    by simp_all
  show ?thesis
    using reg mu
    by (simp add: cool_func_def cool_rv_def example_interp_0_4 example_interp_2_4 example_interp_1_4)
qed

theorem mu_table_lookup_exact_and_clamped_witness:
  "cool_query (example_ext None) (example_data False (example_cooling_values 1)) =
     Inr [(''lognH'', [0]), (''logT'', [4])]
   \<and> call_field (example_ext None)
        (Cool_func (''gas'', ''mu'') example_mu_interpolator (Some ''dimensionless''))
        (example_data False (example_cooling_values 1)) = ([], Inr [1])
   \<and> cool_query (example_ext None) (example_data False (example_cooling_values 100)) =
       Inr [(''lognH'', [2]), (''logT'', [4])]
   \<and> call_field (example_ext None)
        (Cool_func (''gas'', ''mu'') example_mu_interpolator (Some ''dimensionless''))
        (example_data False (example_cooling_values 100)) = ([], Inr [12 / 10])"
proof -
  let ?E = "example_ext None"
  have q: "cool_query ?E (example_data False (example_cooling_values nH)) =
             Inr [(''lognH'', [log 10 nH]), (''logT'', [4])]" for nH
    by (simp add: cool_query_def getitem_def example_data_def example_cooling_values_def
          np_binop_def Y_He_def example_ext_def example_ds_def log10_10000)
  have q1: "cool_query ?E (example_data False (example_cooling_values 1)) =
              Inr [(''lognH'', [0]), (''logT'', [4])]"
    by (simp add: q)
  have q2: "cool_query ?E (example_data False (example_cooling_values 100)) =
              Inr [(''lognH'', [2]), (''logT'', [4])]"
    by (simp add: q log10_100)
  note T1 = mu_table_lookup_exact_and_clamped
              [of "example_state []" ?E "example_data False (example_cooling_values 1)"]
  note T2 = mu_table_lookup_exact_and_clamped
              [of "example_state []" ?E "example_data False (example_cooling_values 100)"]
  from T1 q1 have c1: "call_field ?E
        (Cool_func (''gas'', ''mu'') example_mu_interpolator (Some ''dimensionless''))
        (example_data False (example_cooling_values 1)) = ([], Inr [1])"
    by blast
  from T2 q2 have c2: "call_field ?E
        (Cool_func (''gas'', ''mu'') example_mu_interpolator (Some ''dimensionless''))
        (example_data False (example_cooling_values 100)) = ([], Inr [12 / 10])"
    by blast
  from q1 q2 c1 c2 show ?thesis by blast
qed

subsection \<open>C8: the padding of rt_c_frac\<close>

text \<open>
  Claim C8 asks for a padded array of at least \<open>max_level + 1\<close> entries. The source pads
  by \<^verbatim>\<open>max(0, max_level - len(["rt_c_frac"]) + 1)\<close>, and the length of that one-element
  list literal is 1 whatever the array is: \<open>max_level\<close> entries are appended in every
  case (lemma \<open>length_pad_rt_c_frac\<close>). For a non-empty array this is long enough
  (lemma \<open>pad_rt_c_frac_covers_levels\<close>), and the pad value is as claimed (lemma
  \<open>pad_rt_c_frac_pad_value\<close>); for an empty array and \<open>max_level = 3\<close> the result has
  three entries, one fewer than the four levels, and an index of level 3 is out of range.
\<close>

theorem rt_c_frac_padding_of_empty_array:
  "pad_rt_c_frac [] 3 = [1, 1, 1]
   \<and> int (length (pad_rt_c_frac [] 3)) < 3 + 1
   \<and> np_take (pad_rt_c_frac [] 3) 3 = Inl IndexError"
  by (simp add: pad_rt_c_frac_def np_take_def numeral_3_eq_3)

subsection \<open>C9: no warning during field detection\<close>

text \<open>
  Claim C9. On a FieldDetector the fallback temperature issues no warning and still
  returns \<^verbatim>\<open>data["gas", "temperature_over_mu"]\<close>.
\<close>

theorem fallback_temperature_silent_for_field_detector:
  "is_field_detector data \<Longrightarrow>
     call_field ext Temperature_fallback data = ([], getitem data (''gas'', ''temperature_over_mu''))"
  by (simp add: temperature_fallback_def)

theorem fallback_temperature_silent_for_field_detector_witness:
  "is_field_detector (example_data True example_temperature_values) \<and>
   call_field (example_ext None) Temperature_fallback (example_data True example_temperature_values)
     = ([], Inr [100, 200])"
  using fallback_temperature_silent_for_field_detector
          [of "example_data True example_temperature_values" "example_ext None"]
  by (simp add: example_data_def example_temperature_values_def getitem_def)

subsection \<open>C10: the density coordinate of the cooling tables\<close>

text \<open>
  Claim C10. For every field made by \<^verbatim>\<open>_create_field\<close> the dictionary given to the
  interpolator holds, under \<^verbatim>\<open>lognH\<close>, the values \<open>log10 (nH / boost)\<close> with
  \<open>nH = (1 - 0.24) * (1 - Z) * density / mh\<close>, where \<open>boost\<close> is
  \<open>max (exp (- nH / 0.01)) 1e-20\<close> when the dataset has \<^verbatim>\<open>self_shielding\<close> set and 1
  otherwise; without self-shielding the coordinate is \<open>log10 nH\<close>. The arrays of
  metallicity and density have one length.
\<close>

theorem cooling_query_coordinates:
  assumes Z: "getitem data (''gas'', ''metallicity'') = Inr Z"
    and rho: "getitem data (''gas'', ''density'') = Inr rho"
    and len: "length Z = length rho"
    and T: "getitem data (''gas'', ''temperature_over_mu'') = Inr T"
  shows "cool_query ext data =
           Inr [(''lognH'',
                 map2 (\<lambda>z r. let nH = (1 - 0.24) * (1 - z) * r / mh ext;
                                 boost = (if self_shielding (ds data)
                                          then max (exp (- nH / 0.01)) (1 / 10 ^ 20) else 1)
                             in log 10 (nH / boost)) Z rho),
                (''logT'', map (log 10) T)]
       \<and> (\<not> self_shielding (ds data) \<longrightarrow>
            bindE (cool_query ext data) (\<lambda>d. dict_get d ''lognH'') =
              Inr (map2 (\<lambda>z r. log 10 ((1 - 0.24) * (1 - z) * r / mh ext)) Z rho))
       \<and> (\<forall>name interp_object d. cool_query ext data = Inr d \<longrightarrow>
            cool_rv ext name interp_object data =
              bindE (interp_call interp_object d) (\<lambda>rv0.
                if snd name \<noteq> ''mu''
                then bindE (interp_call interp_object d) (\<lambda>r. Inr (map (\<lambda>v. 10 powr v) r))
                else Inr rv0))"
proof -
  have q: "cool_query ext data =
           Inr [(''lognH'',
                 map2 (\<lambda>z r. let nH = (1 - 0.24) * (1 - z) * r / mh ext;
                                 boost = (if self_shielding (ds data)
                                          then max (exp (- nH / 0.01)) (1 / 10 ^ 20) else 1)
                             in log 10 (nH / boost)) Z rho),
                (''logT'', map (log 10) T)]"
    using assms
    by (simp add: cool_query_def np_binop_same_length Y_He_def Let_def zip_map1 split_def
          o_def)
  then show ?thesis
    by (simp add: cool_rv_def dict_get_def Let_def)
qed

theorem cooling_query_coordinates_witness:
  "getitem (example_data False (example_cooling_values 1)) (''gas'', ''metallicity'') = Inr [0]
   \<and> getitem (example_data False (example_cooling_values 1)) (''gas'', ''density'') = Inr [100 / 76]
   \<and> \<not> self_shielding (ds (example_data False (example_cooling_values 1)))
   \<and> cool_query (example_ext None) (example_data False (example_cooling_values 1)) =
       Inr [(''lognH'', [0]), (''logT'', [4])]"
proof -
  let ?D = "example_data False (example_cooling_values 1)"
  have Z: "getitem ?D (''gas'', ''metallicity'') = Inr [0]"
    and rho: "getitem ?D (''gas'', ''density'') = Inr [100 / 76]"
    and T: "getitem ?D (''gas'', ''temperature_over_mu'') = Inr [10000]"
    by (simp_all add: getitem_def example_data_def example_cooling_values_def)
  have ss: "\<not> self_shielding (ds ?D)" by (simp add: example_data_def example_ds_def)
  note C = cooling_query_coordinates [OF Z rho _ T, of "example_ext None", simplified]
  have "cool_query (example_ext None) ?D = Inr [(''lognH'', [0]), (''logT'', [4])]"
    using C ss by (simp add: example_ext_def log10_10000)
  with Z rho ss show ?thesis by simp
qed


end
